theory Spec2Isabelle
  imports Main "HOL-Library.Word"
begin

section \<open>JavaScript strings\<close>

text \<open>
  A JavaScript string is a sequence of 16-bit code units. String constants of
  \<^verbatim>\<open>index.js\<close> are written \<open>js ''...''\<close>; code units outside ASCII are given
  in hexadecimal.
\<close>

type_synonym unit16 = "16 word"
type_synonym jsstring = "unit16 list"

definition js :: "string \<Rightarrow> jsstring" where
  "js s = map (\<lambda>c. of_nat (of_char c)) s"

text \<open>\<^verbatim>\<open>s.startsWith(p)\<close> and \<^verbatim>\<open>s.includes(p)\<close>.\<close>

definition startsWith :: "jsstring \<Rightarrow> jsstring \<Rightarrow> bool" where
  "startsWith s p = (take (length p) s = p)"

fun includes_str :: "jsstring \<Rightarrow> jsstring \<Rightarrow> bool" where
  "includes_str [] p = (p = [])"
| "includes_str (c # cs) p = (startsWith (c # cs) p \<or> includes_str cs p)"

text \<open>
  \<^verbatim>\<open>s.replace(p, r)\<close> for a string pattern \<open>p\<close>: the first occurrence of \<open>p\<close> is
  replaced (the replacement strings of \<^verbatim>\<open>index.js\<close> hold no \<^verbatim>\<open>$\<close>).
\<close>

fun replace :: "jsstring \<Rightarrow> jsstring \<Rightarrow> jsstring \<Rightarrow> jsstring" where
  "replace [] p r = (if p = [] then r else [])"
| "replace (c # cs) p r =
     (if startsWith (c # cs) p then r @ drop (length p) (c # cs) else c # replace cs p r)"

subsection \<open>parseInt\<close>

text \<open>
  \<^verbatim>\<open>parseInt(string)\<close> with no radix: leading white space is dropped, then a sign, then
  a \<^verbatim>\<open>0x\<close> prefix (which selects radix 16), then the longest run of digits is read;
  no digit at all gives \<^verbatim>\<open>NaN\<close>. The numbers of \<^verbatim>\<open>index.js\<close> are only compared
  with \<open>0\<close> and with an array length and used as an array index, where a double and
  the integer it was rounded from behave alike, so a number is \<open>NaN\<close> or an integer
  (\<open>-0\<close> is \<open>0\<close>).
\<close>

datatype jsnum = NaN | Fin int

definition is_white_space :: "unit16 \<Rightarrow> bool" where
  "is_white_space c \<longleftrightarrow>
     c = 0x09 \<or> c = 0x0A \<or> c = 0x0B \<or> c = 0x0C \<or> c = 0x0D \<or> c = 0x20 \<or> c = 0xA0
     \<or> c = 0x1680 \<or> (0x2000 \<le> c \<and> c \<le> 0x200A) \<or> c = 0x2028 \<or> c = 0x2029
     \<or> c = 0x202F \<or> c = 0x205F \<or> c = 0x3000 \<or> c = 0xFEFF"

definition is_digit :: "unit16 \<Rightarrow> bool" where
  "is_digit c \<longleftrightarrow> 0x30 \<le> c \<and> c \<le> 0x39"

definition digit_value :: "unit16 \<Rightarrow> nat option" where
  "digit_value c =
     (if 0x30 \<le> c \<and> c \<le> 0x39 then Some (unat c - 48)
      else if 0x61 \<le> c \<and> c \<le> 0x7A then Some (unat c - 87)
      else if 0x41 \<le> c \<and> c \<le> 0x5A then Some (unat c - 55)
      else None)"

definition is_radix_digit :: "nat \<Rightarrow> unit16 \<Rightarrow> bool" where
  "is_radix_digit R c = (case digit_value c of None \<Rightarrow> False | Some d \<Rightarrow> d < R)"

definition radix_value :: "nat \<Rightarrow> jsstring \<Rightarrow> nat" where
  "radix_value R Z =
     foldl (\<lambda>a c. R * a + (case digit_value c of None \<Rightarrow> 0 | Some d \<Rightarrow> d)) 0 Z"

definition parseInt :: "jsstring \<Rightarrow> jsnum" where
  "parseInt inputString =
     (let S = dropWhile is_white_space inputString;
          sign = (case S of c # _ \<Rightarrow> if c = 0x2D then - 1 else 1 | [] \<Rightarrow> (1::int));
          S1 = (case S of c # r \<Rightarrow> if c = 0x2B \<or> c = 0x2D then r else S | [] \<Rightarrow> S);
          hex = (startsWith S1 (js ''0x'') \<or> startsWith S1 (js ''0X''));
          R = (if hex then 16 else 10);
          S2 = (if hex then drop 2 S1 else S1);
          Z = takeWhile (is_radix_digit R) S2
      in if Z = [] then NaN else Fin (sign * int (radix_value R Z)))"

text \<open>The comparisons \<^verbatim>\<open>index < 0\<close> and \<^verbatim>\<open>index >= length\<close>: false on \<^verbatim>\<open>NaN\<close>.\<close>

fun num_less_zero :: "jsnum \<Rightarrow> bool" where
  "num_less_zero NaN = False"
| "num_less_zero (Fin i) = (i < 0)"

fun num_ge :: "jsnum \<Rightarrow> nat \<Rightarrow> bool" where
  "num_ge NaN n = False"
| "num_ge (Fin i) n = (i \<ge> int n)"

text \<open>The decimal digits of a natural number, as \<^verbatim>\<open>`${n}`\<close> gives them.\<close>

fun decimal :: "nat \<Rightarrow> jsstring" where
  "decimal n = (if n < 10 then [of_nat (48 + n)] else decimal (n div 10) @ [of_nat (48 + n mod 10)])"

declare decimal.simps [simp del]

section \<open>JSON\<close>

text \<open>
  The values \<^verbatim>\<open>JSON.parse\<close> builds and \<^verbatim>\<open>index.js\<close> then reads and changes, with
  \<^verbatim>\<open>undefined\<close> for a property that is read and absent. An object is the list of
  its own properties in property order. Numbers are left out: a shopping list holds
  none (\<open>quantity\<close> is a string), and \<open>JSON_parse\<close> below says so when a text holds
  one.
\<close>

datatype jsval =
    Undefined
  | Null
  | Bool bool
  | Str jsstring
  | Arr "jsval list"
  | Obj "(jsstring \<times> jsval) list"

subsection \<open>JSON.stringify(value, null, 2)\<close>

definition is_leading_surrogate :: "unit16 \<Rightarrow> bool" where
  "is_leading_surrogate c \<longleftrightarrow> 0xD800 \<le> c \<and> c \<le> 0xDBFF"

definition is_trailing_surrogate :: "unit16 \<Rightarrow> bool" where
  "is_trailing_surrogate c \<longleftrightarrow> 0xDC00 \<le> c \<and> c \<le> 0xDFFF"

definition hex_digit :: "nat \<Rightarrow> unit16" where
  "hex_digit d = (if d < 10 then of_nat (48 + d) else of_nat (87 + d))"

text \<open>\<^verbatim>\<open>\uXXXX\<close>, in lower case.\<close>

definition unicode_escape :: "unit16 \<Rightarrow> jsstring" where
  "unicode_escape c =
     (let n = unat c
      in [0x5C, 0x75, hex_digit (n div 4096), hex_digit (n div 256 mod 16),
          hex_digit (n div 16 mod 16), hex_digit (n mod 16)])"

text \<open>
  QuoteJSONString, code point by code point: the seven short escapes, \<^verbatim>\<open>\uXXXX\<close> for
  the other control characters and for a surrogate that has no partner, and every
  other code point as it is.
\<close>

definition quote_unit :: "unit16 \<Rightarrow> jsstring" where
  "quote_unit c =
     (if c = 0x08 then [0x5C, 0x62]
      else if c = 0x09 then [0x5C, 0x74]
      else if c = 0x0A then [0x5C, 0x6E]
      else if c = 0x0C then [0x5C, 0x66]
      else if c = 0x0D then [0x5C, 0x72]
      else if c = 0x22 then [0x5C, 0x22]
      else if c = 0x5C then [0x5C, 0x5C]
      else if c < 0x20 \<or> is_leading_surrogate c \<or> is_trailing_surrogate c then unicode_escape c
      else [c])"

fun quote_units :: "jsstring \<Rightarrow> jsstring" where
  "quote_units [] = []"
| "quote_units [c] = quote_unit c"
| "quote_units (c # d # cs) =
     (if is_leading_surrogate c \<and> is_trailing_surrogate d then c # d # quote_units cs
      else quote_unit c @ quote_units (d # cs))"

definition QuoteJSONString :: "jsstring \<Rightarrow> jsstring" where
  "QuoteJSONString s = 0x22 # quote_units s @ [0x22]"

text \<open>The indentation at nesting depth \<open>n\<close>: the gap is two spaces.\<close>

definition indent :: "nat \<Rightarrow> jsstring" where
  "indent n = replicate (2 * n) 0x20"

fun join :: "'a list \<Rightarrow> 'a list list \<Rightarrow> 'a list" where
  "join sep [] = []"
| "join sep [x] = x"
| "join sep (x # y # ys) = x @ sep @ join sep (y # ys)"

text \<open>
  SerializeJSONProperty at depth \<open>n\<close>; \<open>None\<close> is \<^verbatim>\<open>undefined\<close>. An array prints
  \<^verbatim>\<open>null\<close> for an element that has no text; an object leaves such a property out.
\<close>

fun serialize :: "nat \<Rightarrow> jsval \<Rightarrow> jsstring option"
  and serialize_elements :: "nat \<Rightarrow> jsval list \<Rightarrow> jsstring list"
  and serialize_members :: "nat \<Rightarrow> (jsstring \<times> jsval) list \<Rightarrow> jsstring list" where
  "serialize n Undefined = None"
| "serialize n Null = Some (js ''null'')"
| "serialize n (Bool b) = Some (if b then js ''true'' else js ''false'')"
| "serialize n (Str s) = Some (QuoteJSONString s)"
| "serialize n (Arr xs) =
     Some (if xs = [] then js ''[]''
           else 0x5B # 0x0A # indent (Suc n)
                @ join (0x2C # 0x0A # indent (Suc n)) (serialize_elements (Suc n) xs)
                @ 0x0A # indent n @ [0x5D])"
| "serialize n (Obj ps) =
     Some (let partial = serialize_members (Suc n) ps
           in if partial = [] then js ''{}''
              else 0x7B # 0x0A # indent (Suc n)
                   @ join (0x2C # 0x0A # indent (Suc n)) partial
                   @ 0x0A # indent n @ [0x7D])"
| "serialize_elements n [] = []"
| "serialize_elements n (x # xs) =
     (case serialize n x of None \<Rightarrow> js ''null'' | Some t \<Rightarrow> t) # serialize_elements n xs"
| "serialize_members n [] = []"
| "serialize_members n (p # ps) =
     (case serialize n (snd p) of
        None \<Rightarrow> serialize_members n ps
      | Some t \<Rightarrow> (QuoteJSONString (fst p) @ 0x3A # 0x20 # t) # serialize_members n ps)"

definition JSON_stringify :: "jsval \<Rightarrow> jsstring option" where
  "JSON_stringify v = serialize 0 v"

subsection \<open>JSON.parse: the tokens\<close>

datatype token =
    LBrace | RBrace | LBracket | RBracket | Colon | Comma
  | TString jsstring | TNumber | TTrue | TFalse | TNull

definition is_json_ws :: "unit16 \<Rightarrow> bool" where
  "is_json_ws c \<longleftrightarrow> c = 0x09 \<or> c = 0x0A \<or> c = 0x0D \<or> c = 0x20"

definition hex_value :: "unit16 \<Rightarrow> nat option" where
  "hex_value c =
     (if 0x30 \<le> c \<and> c \<le> 0x39 then Some (unat c - 48)
      else if 0x61 \<le> c \<and> c \<le> 0x66 then Some (unat c - 87)
      else if 0x41 \<le> c \<and> c \<le> 0x46 then Some (unat c - 55)
      else None)"

definition hex4 :: "unit16 \<Rightarrow> unit16 \<Rightarrow> unit16 \<Rightarrow> unit16 \<Rightarrow> unit16 option" where
  "hex4 a b c d =
     (case (hex_value a, hex_value b, hex_value c, hex_value d) of
        (Some x, Some y, Some z, Some u) \<Rightarrow> Some (of_nat (((x * 16 + y) * 16 + z) * 16 + u))
      | _ \<Rightarrow> None)"

definition unescape :: "unit16 \<Rightarrow> unit16 option" where
  "unescape e =
     (if e = 0x22 \<or> e = 0x5C \<or> e = 0x2F then Some e
      else if e = 0x62 then Some 0x08
      else if e = 0x66 then Some 0x0C
      else if e = 0x6E then Some 0x0A
      else if e = 0x72 then Some 0x0D
      else if e = 0x74 then Some 0x09
      else None)"

definition cons_unit :: "unit16 \<Rightarrow> (jsstring \<times> jsstring) option \<Rightarrow> (jsstring \<times> jsstring) option" where
  "cons_unit c r = (case r of None \<Rightarrow> None | Some (s, rest) \<Rightarrow> Some (c # s, rest))"

text \<open>
  The text after an opening quote: the string it holds and what follows the closing
  quote. A control character, an unknown escape and a missing closing quote are
  syntax errors.
\<close>

fun lex_string :: "jsstring \<Rightarrow> (jsstring \<times> jsstring) option" where
  "lex_string [] = None"
| "lex_string (c # cs) =
     (if c = 0x22 then Some ([], cs)
      else if c = 0x5C then
        (case cs of
           [] \<Rightarrow> None
         | e # cs1 \<Rightarrow>
             if e = 0x75 then
               (case cs1 of
                  h1 # h2 # h3 # h4 # cs2 \<Rightarrow>
                    (case hex4 h1 h2 h3 h4 of
                       None \<Rightarrow> None
                     | Some u \<Rightarrow> cons_unit u (lex_string cs2))
                | _ \<Rightarrow> None)
             else (case unescape e of None \<Rightarrow> None | Some u \<Rightarrow> cons_unit u (lex_string cs1)))
      else if c < 0x20 then None
      else cons_unit c (lex_string cs))"

text \<open>
  A number literal: an optional minus, an integer part with no leading zero, an
  optional fraction, an optional exponent. The result is the text after it.
\<close>

definition lex_fraction :: "jsstring \<Rightarrow> jsstring option" where
  "lex_fraction cs =
     (case cs of
        c # r \<Rightarrow>
          if c = 0x2E then
            (case r of d # _ \<Rightarrow> if is_digit d then Some (dropWhile is_digit r) else None
                    | [] \<Rightarrow> None)
          else Some cs
      | [] \<Rightarrow> Some cs)"

definition lex_exponent :: "jsstring \<Rightarrow> jsstring option" where
  "lex_exponent cs =
     (case cs of
        c # r \<Rightarrow>
          if c = 0x65 \<or> c = 0x45 then
            (let r1 = (case r of s # r' \<Rightarrow> if s = 0x2B \<or> s = 0x2D then r' else r | [] \<Rightarrow> r)
             in case r1 of d # _ \<Rightarrow> if is_digit d then Some (dropWhile is_digit r1) else None
                        | [] \<Rightarrow> None)
          else Some cs
      | [] \<Rightarrow> Some cs)"

definition lex_number :: "jsstring \<Rightarrow> jsstring option" where
  "lex_number cs =
     (let cs1 = (case cs of c # r \<Rightarrow> if c = 0x2D then r else cs | [] \<Rightarrow> cs)
      in case cs1 of
           [] \<Rightarrow> None
         | d # r \<Rightarrow>
             if \<not> is_digit d then None
             else (case lex_fraction (if d = 0x30 then r else dropWhile is_digit r) of
                     None \<Rightarrow> None
                   | Some cs3 \<Rightarrow> lex_exponent cs3))"

definition cons_token :: "token \<Rightarrow> token list option \<Rightarrow> token list option" where
  "cons_token t r = (case r of None \<Rightarrow> None | Some ts \<Rightarrow> Some (t # ts))"

lemma lex_string_shorter: "lex_string cs = Some (s, rest) \<Longrightarrow> length rest < Suc (length cs)"
proof (induction cs arbitrary: s rest rule: lex_string.induct)
  case 1
  then show ?case by simp
next
  case (2 c cs)
  show ?case
    using "2.prems" "2.IH"
    by (fastforce simp: cons_unit_def split: if_splits list.splits option.splits prod.splits)
qed

lemma lex_fraction_shorter: "lex_fraction cs = Some rest \<Longrightarrow> length rest \<le> length cs"
  by (auto simp: lex_fraction_def le_SucI length_dropWhile_le split: list.splits if_splits)

lemma lex_exponent_shorter: "lex_exponent cs = Some rest \<Longrightarrow> length rest \<le> length cs"
  by (auto simp: lex_exponent_def Let_def le_SucI length_dropWhile_le
      intro: le_trans [OF length_dropWhile_le] split: list.splits if_splits)

lemma lex_number_shorter: "lex_number cs = Some rest \<Longrightarrow> length rest < length cs"
proof -
  assume a: "lex_number cs = Some rest"
  define cs1 where "cs1 = (case cs of c # r \<Rightarrow> if c = 0x2D then r else cs | [] \<Rightarrow> cs)"
  have l1: "length cs1 \<le> length cs"
    by (auto simp: cs1_def split: list.splits)
  from a obtain d r cs3 where cs1: "cs1 = d # r"
    and f: "lex_fraction (if d = 0x30 then r else dropWhile is_digit r) = Some cs3"
    and e: "lex_exponent cs3 = Some rest"
    unfolding lex_number_def Let_def cs1_def [symmetric]
    by (auto split: list.splits if_splits option.splits)
  have "length (if d = 0x30 then r else dropWhile is_digit r) \<le> length r"
    by (simp add: length_dropWhile_le)
  with lex_fraction_shorter [OF f] lex_exponent_shorter [OF e] have "length rest \<le> length r"
    by linarith
  with cs1 l1 show ?thesis by simp
qed

function scan :: "jsstring \<Rightarrow> token list option" where
  "scan [] = Some []"
| "scan (c # cs) =
     (if is_json_ws c then scan cs
      else if c = 0x7B then cons_token LBrace (scan cs)
      else if c = 0x7D then cons_token RBrace (scan cs)
      else if c = 0x5B then cons_token LBracket (scan cs)
      else if c = 0x5D then cons_token RBracket (scan cs)
      else if c = 0x3A then cons_token Colon (scan cs)
      else if c = 0x2C then cons_token Comma (scan cs)
      else if c = 0x22 then
        (case lex_string cs of
           None \<Rightarrow> None
         | Some (s, rest) \<Rightarrow> cons_token (TString s) (scan rest))
      else if startsWith (c # cs) (js ''true'') then cons_token TTrue (scan (drop 3 cs))
      else if startsWith (c # cs) (js ''false'') then cons_token TFalse (scan (drop 4 cs))
      else if startsWith (c # cs) (js ''null'') then cons_token TNull (scan (drop 3 cs))
      else if c = 0x2D \<or> is_digit c then
        (case lex_number (c # cs) of
           None \<Rightarrow> None
         | Some rest \<Rightarrow> cons_token TNumber (scan rest))
      else None)"
  by pat_completeness auto
termination
  by (relation "measure length")
    (auto dest: lex_string_shorter lex_number_shorter intro: le_imp_less_Suc)

subsection \<open>JSON.parse: the values\<close>

text \<open>
  An array index is the canonical decimal text of a number below \<open>2^32 - 1\<close>. The
  own properties of an object are kept in property order: first the array indices in
  ascending order, then the other keys in the order they were created.
\<close>

definition array_index :: "jsstring \<Rightarrow> nat option" where
  "array_index k =
     (case k of
        [] \<Rightarrow> None
      | c # r \<Rightarrow>
          if \<not> list_all is_digit k \<or> (c = 0x30 \<and> r \<noteq> []) then None
          else (let n = radix_value 10 k in if n < 4294967295 then Some n else None))"

fun insert_index :: "nat \<Rightarrow> jsstring \<Rightarrow> jsval \<Rightarrow> (jsstring \<times> jsval) list \<Rightarrow> (jsstring \<times> jsval) list" where
  "insert_index n k v [] = [(k, v)]"
| "insert_index n k v (p # ps) =
     (case array_index (fst p) of
        Some m \<Rightarrow> if m < n then p # insert_index n k v ps else (k, v) # p # ps
      | None \<Rightarrow> (k, v) # p # ps)"

text \<open>
  Writing the own data property \<open>k\<close>: a property that exists keeps its place and takes
  the value, a new one is created.
\<close>

definition put_property :: "(jsstring \<times> jsval) list \<Rightarrow> jsstring \<Rightarrow> jsval \<Rightarrow> (jsstring \<times> jsval) list" where
  "put_property ps k v =
     (if k \<in> fst ` set ps then map (\<lambda>p. if fst p = k then (k, v) else p) ps
      else (case array_index k of None \<Rightarrow> ps @ [(k, v)] | Some n \<Rightarrow> insert_index n k v ps))"

text \<open>
  The parser reads the tokens from left to right with a stack of the arrays and
  objects that are still open. \<open>ArrayFrame\<close> holds the elements read so far, the last
  one first; \<open>ObjectFrame\<close> holds the properties read so far and the key whose value is
  being read.
\<close>

datatype frame =
    ArrayFrame "jsval list"
  | ObjectFrame "(jsstring \<times> jsval) list" "jsstring option"

datatype expect =
    ExpValue        \<comment> \<open>a value\<close>
  | ExpValueOrEnd   \<comment> \<open>after \<^verbatim>\<open>[\<close>: a value or \<^verbatim>\<open>]\<close>\<close>
  | ExpKeyOrEnd     \<comment> \<open>after \<^verbatim>\<open>{\<close>: a key or \<^verbatim>\<open>}\<close>\<close>
  | ExpKey          \<comment> \<open>after a comma in an object: a key\<close>
  | ExpColon        \<comment> \<open>after a key\<close>
  | ExpNext         \<comment> \<open>after a value: a comma or the closing bracket\<close>

datatype pstate = Reading expect "frame list" | Finished jsval | Failed

text \<open>A complete value goes to the innermost open array or object.\<close>

fun deliver :: "jsval \<Rightarrow> frame list \<Rightarrow> pstate" where
  "deliver v [] = Finished v"
| "deliver v (ArrayFrame acc # st) = Reading ExpNext (ArrayFrame (v # acc) # st)"
| "deliver v (ObjectFrame ps (Some k) # st) = Reading ExpNext (ObjectFrame (put_property ps k v) None # st)"
| "deliver v (ObjectFrame ps None # st) = Failed"

text \<open>
  A number token stands for a value the model does not hold; \<open>JSON_parse\<close> reports a
  text with a number in it apart, so the value put in its place is never seen.
\<close>

fun start_value :: "token \<Rightarrow> frame list \<Rightarrow> pstate" where
  "start_value (TString s) st = deliver (Str s) st"
| "start_value TTrue st = deliver (Bool True) st"
| "start_value TFalse st = deliver (Bool False) st"
| "start_value TNull st = deliver Null st"
| "start_value TNumber st = deliver Null st"
| "start_value LBracket st = Reading ExpValueOrEnd (ArrayFrame [] # st)"
| "start_value LBrace st = Reading ExpKeyOrEnd (ObjectFrame [] None # st)"
| "start_value _ st = Failed"

fun read_key :: "token \<Rightarrow> frame list \<Rightarrow> pstate" where
  "read_key (TString k) (ObjectFrame ps None # st) = Reading ExpColon (ObjectFrame ps (Some k) # st)"
| "read_key _ _ = Failed"

fun parse_step :: "pstate \<Rightarrow> token \<Rightarrow> pstate" where
  "parse_step (Reading ExpValue st) t = start_value t st"
| "parse_step (Reading ExpValueOrEnd st) t =
     (case (t, st) of
        (RBracket, ArrayFrame [] # st') \<Rightarrow> deliver (Arr []) st'
      | _ \<Rightarrow> start_value t st)"
| "parse_step (Reading ExpKeyOrEnd st) t =
     (case (t, st) of
        (RBrace, ObjectFrame [] None # st') \<Rightarrow> deliver (Obj []) st'
      | _ \<Rightarrow> read_key t st)"
| "parse_step (Reading ExpKey st) t = read_key t st"
| "parse_step (Reading ExpColon st) t = (if t = Colon then Reading ExpValue st else Failed)"
| "parse_step (Reading ExpNext st) t =
     (case (t, st) of
        (Comma, ArrayFrame acc # st') \<Rightarrow> Reading ExpValue st
      | (Comma, ObjectFrame ps None # st') \<Rightarrow> Reading ExpKey st
      | (RBracket, ArrayFrame acc # st') \<Rightarrow> deliver (Arr (rev acc)) st'
      | (RBrace, ObjectFrame ps None # st') \<Rightarrow> deliver (Obj ps) st'
      | _ \<Rightarrow> Failed)"
| "parse_step (Finished v) t = Failed"
| "parse_step Failed t = Failed"

definition parse_tokens :: "token list \<Rightarrow> jsval option" where
  "parse_tokens ts =
     (case foldl parse_step (Reading ExpValue []) ts of Finished v \<Rightarrow> Some v | _ \<Rightarrow> None)"

text \<open>
  \<^verbatim>\<open>JSON.parse(text)\<close>: a syntax error, a value, or (outside the model) a well-formed
  text that holds a number.
\<close>

datatype parsed = SyntaxError | Parsed jsval | HoldsNumber

definition JSON_parse :: "jsstring \<Rightarrow> parsed" where
  "JSON_parse t =
     (case scan t of
        None \<Rightarrow> SyntaxError
      | Some ts \<Rightarrow>
          (case parse_tokens ts of
             None \<Rightarrow> SyntaxError
           | Some v \<Rightarrow> if TNumber \<in> set ts then HoldsNumber else Parsed v))"

section \<open>The bot and what surrounds it\<close>

subsection \<open>Category registry\<close>

text \<open>The \<^verbatim>\<open>categories\<close> object: key and glyph, in the order of the source.\<close>

definition categories :: "(jsstring \<times> jsstring) list" where
  "categories =
     [(js ''proteins'', [0xD83E, 0xDD69]),
      (js ''healthy_carbs'', [0xD83C, 0xDF5A]),
      (js ''vitamins'', [0xD83D, 0xDC8A]),
      (js ''healthy_fats'', [0xD83E, 0xDD51]),
      (js ''meal_prep'', [0xD83C, 0xDF71]),
      (js ''fruits'', [0xD83C, 0xDF4E]),
      (js ''vegetables'', [0xD83E, 0xDD66]),
      (js ''other'', [0xD83D, 0xDCE6]),
      (js ''ikea'', [0xD83C, 0xDDF8, 0xD83C, 0xDDEA])]"

subsection \<open>Messaging channel, file and log\<close>

text \<open>
  What the Telegram client is asked to do. A text that \<^verbatim>\<open>index.js\<close> builds from a
  template is kept as the template's name and the values put into it (\<open>Added\<close>,
  \<open>Removed\<close>, \<open>Toggled\<close>, and the labels of the item buttons); how the glyph is looked up
  and the values become text is not modelled. A fixed text is the text itself.
\<close>

datatype body =
    Text jsstring
  | Added "jsstring option" "jsstring option" "jsstring option"
      \<comment> \<open>\<open>state.category\<close>, \<open>state.name\<close>, \<open>msg.text\<close>\<close>
  | Removed jsval jsval      \<comment> \<open>\<open>removedItem.category\<close>, \<open>removedItem.name\<close>\<close>
  | Toggled jsval bool       \<comment> \<open>\<open>name\<close>, and whether \<open>checked\<close> is truthy\<close>

datatype label =
    Label jsstring
  | ToggleLabel bool jsval jsval jsval    \<comment> \<open>\<open>checked\<close> truthy, \<open>category\<close>, \<open>name\<close>, \<open>quantity\<close>\<close>
  | RemoveLabel jsval jsval jsval         \<comment> \<open>\<open>category\<close>, \<open>name\<close>, \<open>quantity\<close>\<close>

record button =
  button_text :: label
  callback_data :: jsstring

datatype options = NoOptions | Markdown | ReplyMarkup "button list"

datatype api_call =
    SendMessage int body options
  | AnswerCallbackQuery jsstring "(body \<times> bool) option"   \<comment> \<open>\<open>text\<close> and \<open>show_alert\<close>\<close>
  | EditMessageText body int int "button list"               \<comment> \<open>text, chat, message, keyboard\<close>

text \<open>The error a rejected call throws, as far as \<^verbatim>\<open>safeSendMessage\<close> looks into it.\<close>

record api_error =
  error_code :: "int option"
  description :: "jsstring option"

datatype log_entry =
    LoadError                       \<comment> \<open>\<^verbatim>\<open>Error loading shopping list\<close>\<close>
  | SaveError                       \<comment> \<open>\<^verbatim>\<open>Error saving shopping list\<close>\<close>
  | SendError api_error             \<comment> \<open>\<^verbatim>\<open>Failed to send message\<close>\<close>
  | StrippedSendError api_error     \<comment> \<open>\<^verbatim>\<open>Failed to send stripped message\<close>\<close>
  | ErrorSendError api_error        \<comment> \<open>\<^verbatim>\<open>Failed to send error message\<close>\<close>
  | DisplayError api_error          \<comment> \<open>\<^verbatim>\<open>Error displaying shopping list\<close>\<close>

text \<open>The conversation state of a chat: an entry of \<^verbatim>\<open>addItemStates\<close>.\<close>

datatype phase = awaiting_name | awaiting_quantity

record conversation =
  state :: phase
  category :: "jsstring option"
  name :: "jsstring option"

text \<open>
  Everything a handler can read or change. \<open>json_file\<close> is the text of
  \<^verbatim>\<open>shopping-list.json\<close> (\<open>None\<close>: reading it throws), \<open>read_only\<close> says that writing
  it throws. \<open>transport n\<close> is the answer to the call number \<open>n\<close> of the messaging
  channel: \<open>None\<close> when the call is accepted, the error when it is rejected. \<open>calls\<close>
  are the calls made so far, the latest last.
\<close>

record world =
  addItemStates :: "int \<rightharpoonup> conversation"
  json_file :: "jsstring option"
  read_only :: bool
  log :: "log_entry list"
  transport :: "nat \<Rightarrow> api_error option"
  calls :: "api_call list"

text \<open>
  What an async function ends with: \<open>TypeError\<close>, the error of a rejected call, or
  \<open>Unmodelled\<close> where the source goes on in a way this model does not follow (each place
  says which).
\<close>

datatype fault = TypeError | Rejected api_error | Unmodelled

type_synonym 'a comp = "world \<Rightarrow> (fault + 'a) \<times> world"

definition return :: "'a \<Rightarrow> 'a comp" where
  "return x w = (Inr x, w)"

definition throw :: "fault \<Rightarrow> 'a comp" where
  "throw e w = (Inl e, w)"

definition and_then :: "'a comp \<Rightarrow> ('a \<Rightarrow> 'b comp) \<Rightarrow> 'b comp" where
  "and_then m f w = (case m w of (Inl e, w') \<Rightarrow> (Inl e, w') | (Inr x, w') \<Rightarrow> f x w')"

definition lift :: "fault + 'a \<Rightarrow> 'a comp" where
  "lift r w = (r, w)"

definition logger_error :: "log_entry \<Rightarrow> world \<Rightarrow> world" where
  "logger_error e w = w\<lparr>log := log w @ [e]\<rparr>"

text \<open>A call of the messaging channel: recorded, then accepted or rejected.\<close>

definition bot_call :: "api_call \<Rightarrow> world \<Rightarrow> api_error option \<times> world" where
  "bot_call c w = (transport w (length (calls w)), w\<lparr>calls := calls w @ [c]\<rparr>)"

definition call :: "api_call \<Rightarrow> unit comp" where
  "call c w = (case bot_call c w of (None, w') \<Rightarrow> (Inr (), w') | (Some e, w') \<Rightarrow> (Inl (Rejected e), w'))"

subsection \<open>Item store\<close>

text \<open>
  A file written as UTF-8 and read back holds U+FFFD where the string had a surrogate
  with no partner.
\<close>

fun toWellFormed :: "jsstring \<Rightarrow> jsstring" where
  "toWellFormed [] = []"
| "toWellFormed [c] = [if is_leading_surrogate c \<or> is_trailing_surrogate c then 0xFFFD else c]"
| "toWellFormed (c # d # cs) =
     (if is_leading_surrogate c \<and> is_trailing_surrogate d then c # d # toWellFormed cs
      else (if is_leading_surrogate c \<or> is_trailing_surrogate c then 0xFFFD else c)
           # toWellFormed (d # cs))"

definition loadShoppingList :: "jsval comp" where
  "loadShoppingList w =
     (case json_file w of
        None \<Rightarrow> (Inr (Obj [(js ''items'', Arr [])]), logger_error LoadError w)
      | Some data \<Rightarrow>
          (case JSON_parse data of
             SyntaxError \<Rightarrow> (Inr (Obj [(js ''items'', Arr [])]), logger_error LoadError w)
           | Parsed v \<Rightarrow> (Inr v, w)
           | HoldsNumber \<Rightarrow> (Inl Unmodelled, w)))"

definition saveShoppingList :: "jsval \<Rightarrow> world \<Rightarrow> world" where
  "saveShoppingList items w =
     (case JSON_stringify (Obj [(js ''items'', items)]) of
        None \<Rightarrow> logger_error SaveError w
      | Some t \<Rightarrow>
          if read_only w then logger_error SaveError w
          else w\<lparr>json_file := Some (toWellFormed t)\<rparr>)"

subsection \<open>safeSendMessage\<close>

definition strip_markdown :: "jsstring \<Rightarrow> jsstring" where
  "strip_markdown message = filter (\<lambda>c. c \<noteq> 0x2A \<and> c \<noteq> 0x5F \<and> c \<noteq> 0x60 \<and> c \<noteq> 0x5B) message"

definition is_parse_error :: "api_error \<Rightarrow> bool" where
  "is_parse_error error \<longleftrightarrow>
     error_code error = Some 400
     \<and> (case description error of
          None \<Rightarrow> False
        | Some d \<Rightarrow> includes_str d (js ''can'' @ [0x27] @ js ''t parse entities''))"

text \<open>
  The result is \<open>True\<close> when a message went out (the function returns what
  \<^verbatim>\<open>bot.sendMessage\<close> returned) and \<open>False\<close> when it returns \<^verbatim>\<open>undefined\<close>.
\<close>

definition safeSendMessage :: "int \<Rightarrow> jsstring \<Rightarrow> options \<Rightarrow> bool comp" where
  "safeSendMessage chatId message opts w =
     (case bot_call (SendMessage chatId (Text message) opts) w of
        (None, w1) \<Rightarrow> (Inr True, w1)
      | (Some error, w1) \<Rightarrow>
          (let w2 = logger_error (SendError error) w1
           in if is_parse_error error then
                (case bot_call (SendMessage chatId (Text (strip_markdown message)) NoOptions) w2 of
                   (None, w3) \<Rightarrow> (Inr True, w3)
                 | (Some retryError, w3) \<Rightarrow>
                     (let w4 = logger_error (StrippedSendError retryError) w3
                      in case bot_call
                              (SendMessage chatId
                                 (Text (js ''Sorry, there was an error displaying this message.''))
                                 NoOptions) w4 of
                           (None, w5) \<Rightarrow> (Inr True, w5)
                         | (Some e, w5) \<Rightarrow> (Inl (Rejected e), w5)))
              else
                (case bot_call
                        (SendMessage chatId
                           (Text (js ''Sorry, there was an error processing your request.''))
                           NoOptions) w2 of
                   (None, w3) \<Rightarrow> (Inr True, w3)
                 | (Some finalError, w3) \<Rightarrow> (Inr False, logger_error (ErrorSendError finalError) w3))))"

subsection \<open>Reading and changing values\<close>

fun truthy :: "jsval \<Rightarrow> bool" where
  "truthy Undefined = False"
| "truthy Null = False"
| "truthy (Bool b) = b"
| "truthy (Str s) = (s \<noteq> [])"
| "truthy (Arr xs) = True"
| "truthy (Obj ps) = True"

text \<open>
  \<^verbatim>\<open>v.k\<close> for the keys \<^verbatim>\<open>index.js\<close> reads this way (\<^verbatim>\<open>items\<close>, \<^verbatim>\<open>name\<close>,
  \<^verbatim>\<open>quantity\<close>, \<^verbatim>\<open>category\<close>, \<^verbatim>\<open>checked\<close>), which no prototype defines.
\<close>

fun get_property :: "jsval \<Rightarrow> jsstring \<Rightarrow> fault + jsval" where
  "get_property Undefined k = Inl TypeError"
| "get_property Null k = Inl TypeError"
| "get_property (Obj ps) k = Inr (case map_of ps k of None \<Rightarrow> Undefined | Some v \<Rightarrow> v)"
| "get_property v k = Inr Undefined"

text \<open>
  \<^verbatim>\<open>v.k = x\<close> in module code, which is strict: a primitive takes no property. A named
  property of an array is not followed (\<open>Unmodelled\<close>).
\<close>

fun set_property :: "jsval \<Rightarrow> jsstring \<Rightarrow> jsval \<Rightarrow> fault + jsval" where
  "set_property (Obj ps) k x = Inr (Obj (put_property ps k x))"
| "set_property (Arr xs) k x = Inl Unmodelled"
| "set_property v k x = Inl TypeError"

text \<open>
  The elements of a value whose \<^verbatim>\<open>length\<close> is read and which is then indexed,
  spliced or mapped: \<^verbatim>\<open>undefined\<close> and \<^verbatim>\<open>null\<close> have no \<^verbatim>\<open>length\<close>; what the source
  does with a string, a boolean or an object in the place of the array is not followed.
\<close>

fun as_array :: "jsval \<Rightarrow> fault + jsval list" where
  "as_array (Arr xs) = Inr xs"
| "as_array Undefined = Inl TypeError"
| "as_array Null = Inl TypeError"
| "as_array v = Inl Unmodelled"

text \<open>\<^verbatim>\<open>a.push(x)\<close>: only an array has \<^verbatim>\<open>push\<close>.\<close>

fun array_push :: "jsval \<Rightarrow> jsval \<Rightarrow> fault + jsval" where
  "array_push (Arr xs) x = Inr (Arr (xs @ [x]))"
| "array_push v x = Inl TypeError"

text \<open>\<^verbatim>\<open>xs[index]\<close>: \<^verbatim>\<open>undefined\<close> where the array has no such element.\<close>

fun element :: "jsval list \<Rightarrow> jsnum \<Rightarrow> jsval" where
  "element xs NaN = Undefined"
| "element xs (Fin i) = (if 0 \<le> i \<and> i < int (length xs) then xs ! nat i else Undefined)"

text \<open>
  \<^verbatim>\<open>xs.splice(index, 1)\<close>: \<^verbatim>\<open>NaN\<close> starts at 0, a negative start counts from the
  end, a start beyond the end removes nothing.
\<close>

definition splice :: "jsval list \<Rightarrow> jsnum \<Rightarrow> jsval list" where
  "splice xs index =
     (let len = int (length xs);
          relativeStart = (case index of NaN \<Rightarrow> 0 | Fin i \<Rightarrow> i);
          actualStart = nat (if relativeStart < 0 then max (len + relativeStart) 0
                             else min relativeStart len)
      in take actualStart xs @ drop (Suc actualStart) xs)"

text \<open>\<^verbatim>\<open>xs[index] = x\<close> for an index that is an element of the array.\<close>

fun set_element :: "jsval list \<Rightarrow> jsnum \<Rightarrow> jsval \<Rightarrow> jsval list" where
  "set_element xs NaN x = xs"
| "set_element xs (Fin i) x = (if 0 \<le> i \<and> i < int (length xs) then xs[nat i := x] else xs)"

text \<open>
  A value put into a template, or used as a key of \<^verbatim>\<open>categories\<close>: the conversion of
  an array or an object to a string is not followed.
\<close>

fun printable :: "jsval \<Rightarrow> fault + jsval" where
  "printable (Arr xs) = Inl Unmodelled"
| "printable (Obj ps) = Inl Unmodelled"
| "printable v = Inr v"

definition printable_property :: "jsval \<Rightarrow> jsstring \<Rightarrow> fault + jsval" where
  "printable_property v k = (case get_property v k of Inl e \<Rightarrow> Inl e | Inr x \<Rightarrow> printable x)"

text \<open>
  \<^verbatim>\<open>xs.indexOf(xs[i])\<close>: an array or object is equal to itself only, another value to
  the first element that has the same value.
\<close>

definition indexOf :: "jsval list \<Rightarrow> nat \<Rightarrow> nat" where
  "indexOf xs i =
     (case xs ! i of
        Arr _ \<Rightarrow> i
      | Obj _ \<Rightarrow> i
      | v \<Rightarrow> length (takeWhile (\<lambda>y. y \<noteq> v) xs))"

fun map_result :: "('a \<Rightarrow> fault + 'b) \<Rightarrow> 'a list \<Rightarrow> fault + 'b list" where
  "map_result f [] = Inr []"
| "map_result f (x # xs) =
     (case f x of
        Inl e \<Rightarrow> Inl e
      | Inr y \<Rightarrow> (case map_result f xs of Inl e \<Rightarrow> Inl e | Inr ys \<Rightarrow> Inr (y # ys)))"

subsection \<open>Keyboards\<close>

definition category_keyboard :: "button list" where
  "category_keyboard =
     map (\<lambda>(cat, emoji). \<lparr>button_text = Label (emoji @ js '' '' @ cat),
                          callback_data = js ''category_'' @ cat\<rparr>) categories"

definition toggle_button :: "jsval list \<Rightarrow> nat \<Rightarrow> fault + button" where
  "toggle_button xs i =
     (case get_property (xs ! i) (js ''checked'') of
        Inl e \<Rightarrow> Inl e
      | Inr c \<Rightarrow>
          (case printable_property (xs ! i) (js ''category'') of
             Inl e \<Rightarrow> Inl e
           | Inr cat \<Rightarrow>
               (case printable_property (xs ! i) (js ''name'') of
                  Inl e \<Rightarrow> Inl e
                | Inr nm \<Rightarrow>
                    (case printable_property (xs ! i) (js ''quantity'') of
                       Inl e \<Rightarrow> Inl e
                     | Inr q \<Rightarrow>
                         Inr \<lparr>button_text = ToggleLabel (truthy c) cat nm q,
                              callback_data = js ''toggle_'' @ decimal (indexOf xs i)\<rparr>))))"

definition remove_button :: "jsval list \<Rightarrow> nat \<Rightarrow> fault + button" where
  "remove_button xs i =
     (case printable_property (xs ! i) (js ''category'') of
        Inl e \<Rightarrow> Inl e
      | Inr cat \<Rightarrow>
          (case printable_property (xs ! i) (js ''name'') of
             Inl e \<Rightarrow> Inl e
           | Inr nm \<Rightarrow>
               (case printable_property (xs ! i) (js ''quantity'') of
                  Inl e \<Rightarrow> Inl e
                | Inr q \<Rightarrow>
                    Inr \<lparr>button_text = RemoveLabel cat nm q,
                         callback_data = js ''remove_'' @ decimal (indexOf xs i)\<rparr>)))"

definition toggle_keyboard :: "jsval list \<Rightarrow> fault + button list" where
  "toggle_keyboard xs = map_result (toggle_button xs) [0..<length xs]"

definition remove_keyboard :: "jsval list \<Rightarrow> fault + button list" where
  "remove_keyboard xs = map_result (remove_button xs) [0..<length xs]"

subsection \<open>Updates\<close>

record message =
  chat_id :: int
  msg_text :: "jsstring option"

text \<open>
  A pressed button: \<open>query_message\<close> is the chat and the message the button hangs on,
  \<open>query_data\<close> the action token.
\<close>

record callback_query =
  query_id :: jsstring
  query_message :: "(int \<times> int) option"
  query_data :: "jsstring option"

subsection \<open>Command handlers\<close>

definition welcomeMessage :: jsstring where
  "welcomeMessage =
     [0xA, 0xD83D, 0xDED2] @ js '' *Welcome to GroceryBot!*'' @ [0xA, 0xA] @
     js ''Available commands:'' @ [0xA] @
     js ''/list - View and check items in shopping list'' @ [0xA] @
     js ''/add - Add items to list'' @ [0xA] @
     js ''/remove - Remove items'' @ [0xA] @
     js ''/clear - Clear entire list'' @ [0xA] @
     js ''/categories - View categories'' @ [0xA, 0xA] @
     js ''Use /help for more information.'' @ [0xA]"

definition helpMessage :: jsstring where
  "helpMessage =
     [0xA, 0xD83D, 0xDED2] @ js '' *GroceryBot Help*'' @ [0xA, 0xA] @
     js ''Commands:'' @ [0xA] @
     js ''/list - View and check items in your shopping list'' @ [0xA] @
     js ''/add - Add items to your list'' @ [0xA] @
     js ''/remove - Remove items from your list'' @ [0xA] @
     js ''/clear - Clear your entire list'' @ [0xA] @
     js ''/categories - View available categories'' @ [0xA, 0xA] @
     js ''*Adding Items:*'' @ [0xA] @
     js ''Use /add and follow the prompts to add items.'' @ [0xA] @
     js ''Format: item name, quantity, category'' @ [0xA, 0xA] @
     js ''*Categories:*'' @ [0xA] @
     join [0xA] (map (\<lambda>(cat, emoji). emoji @ js '' '' @ cat) categories) @ [0xA]"

definition categoriesList :: jsstring where
  "categoriesList = join [0xA] (map (\<lambda>(cat, emoji). emoji @ js '' *'' @ cat @ js ''*'') categories)"

definition discard :: "'a comp \<Rightarrow> unit comp" where
  "discard m = and_then m (\<lambda>_. return ())"

definition on_start :: "message \<Rightarrow> unit comp" where
  "on_start msg = discard (safeSendMessage (chat_id msg) welcomeMessage Markdown)"

definition on_help :: "message \<Rightarrow> unit comp" where
  "on_help msg = discard (safeSendMessage (chat_id msg) helpMessage Markdown)"

definition on_categories :: "message \<Rightarrow> unit comp" where
  "on_categories msg =
     discard (safeSendMessage (chat_id msg)
                (js ''*Available Categories:*'' @ [0xA, 0xA] @ categoriesList) Markdown)"

definition on_list :: "message \<Rightarrow> unit comp" where
  "on_list msg =
     and_then loadShoppingList (\<lambda>shoppingList.
     and_then (lift (get_property shoppingList (js ''items''))) (\<lambda>items.
     and_then (lift (as_array items)) (\<lambda>xs.
       if length xs = 0 then
         discard (safeSendMessage (chat_id msg)
                    ([0xD83D, 0xDCDD] @ js '' Your shopping list is empty.'') NoOptions)
       else
         and_then (lift (toggle_keyboard xs)) (\<lambda>keyboard w.
           case bot_call
                  (SendMessage (chat_id msg)
                     (Text ([0xD83D, 0xDED2] @ js '' Shopping List'' @ [0xA] @
                            js ''Tap items to check/uncheck them:'' @ [0xA]))
                     (ReplyMarkup keyboard)) w of
             (None, w1) \<Rightarrow> (Inr (), w1)
           | (Some error, w1) \<Rightarrow>
               discard (safeSendMessage (chat_id msg)
                  (js ''Sorry, there was an error displaying your shopping list. Please try again.'')
                  NoOptions)
                 (logger_error (DisplayError error) w1)))))"

definition on_add :: "message \<Rightarrow> unit comp" where
  "on_add msg w =
     call (SendMessage (chat_id msg) (Text (js ''Select a category for the new item:''))
             (ReplyMarkup category_keyboard))
       (w\<lparr>addItemStates := (addItemStates w)
             (chat_id msg \<mapsto> \<lparr>state = awaiting_name, category = None, name = None\<rparr>)\<rparr>)"

definition on_remove :: "message \<Rightarrow> unit comp" where
  "on_remove msg =
     and_then loadShoppingList (\<lambda>shoppingList.
     and_then (lift (get_property shoppingList (js ''items''))) (\<lambda>items.
     and_then (lift (as_array items)) (\<lambda>xs.
       if length xs = 0 then
         call (SendMessage (chat_id msg)
                 (Text ([0xD83D, 0xDCDD] @ js '' Your shopping list is empty.'')) NoOptions)
       else
         and_then (lift (remove_keyboard xs)) (\<lambda>keyboard.
           call (SendMessage (chat_id msg) (Text (js ''Select an item to remove:''))
                   (ReplyMarkup keyboard))))))"

definition on_clear :: "message \<Rightarrow> unit comp" where
  "on_clear msg w =
     call (SendMessage (chat_id msg)
             (Text ([0xD83D, 0xDDD1, 0xFE0F] @ js '' Your shopping list has been cleared.''))
             NoOptions)
       (saveShoppingList (Arr []) w)"

subsection \<open>The add dialogue\<close>

text \<open>The first \<^verbatim>\<open>callback_query\<close> listener: category selection.\<close>

definition on_category_query :: "callback_query \<Rightarrow> unit comp" where
  "on_category_query query w =
     (case query_message query of
        None \<Rightarrow> (Inl TypeError, w)
      | Some (chatId, messageId) \<Rightarrow>
          (case query_data query of
             None \<Rightarrow> (Inl TypeError, w)
           | Some data \<Rightarrow>
               if startsWith data (js ''category_'') then
                 and_then (call (SendMessage chatId (Text (js ''Enter the item name:'')) NoOptions))
                   (\<lambda>_. call (AnswerCallbackQuery (query_id query) None))
                   (w\<lparr>addItemStates := (addItemStates w)
                         (chatId \<mapsto> \<lparr>state = awaiting_name,
                                       category = Some (replace data (js ''category_'') []),
                                       name = None\<rparr>)\<rparr>)
               else (Inr (), w)))"

text \<open>
  The \<^verbatim>\<open>message\<close> listener: item name and quantity. \<^verbatim>\<open>state.category\<close> is truthy when
  it is there and not empty; \<^verbatim>\<open>msg.text\<close> is absent for a message that is no text.
\<close>

definition text_startsWith :: "jsstring option \<Rightarrow> jsstring \<Rightarrow> bool" where
  "text_startsWith t p = (case t of None \<Rightarrow> False | Some s \<Rightarrow> startsWith s p)"

definition string_truthy :: "jsstring option \<Rightarrow> bool" where
  "string_truthy t = (case t of None \<Rightarrow> False | Some s \<Rightarrow> s \<noteq> [])"

definition optional_string :: "jsstring option \<Rightarrow> jsval" where
  "optional_string t = (case t of None \<Rightarrow> Undefined | Some s \<Rightarrow> Str s)"

definition on_message :: "message \<Rightarrow> unit comp" where
  "on_message msg w =
     (case addItemStates w (chat_id msg) of
        None \<Rightarrow> (Inr (), w)
      | Some st \<Rightarrow>
          if text_startsWith (msg_text msg) (js ''/'') then (Inr (), w)
          else if state st = awaiting_name \<and> string_truthy (category st) then
            call (SendMessage (chat_id msg) (Text (js ''Enter the quantity:'')) NoOptions)
              (w\<lparr>addItemStates := (addItemStates w)
                    (chat_id msg \<mapsto> st\<lparr>name := msg_text msg, state := awaiting_quantity\<rparr>)\<rparr>)
          else if state st = awaiting_quantity then
            and_then loadShoppingList (\<lambda>shoppingList.
            and_then (lift (get_property shoppingList (js ''items''))) (\<lambda>items.
            and_then (lift (array_push items
                              (Obj [(js ''name'', optional_string (name st)),
                                    (js ''quantity'', optional_string (msg_text msg)),
                                    (js ''category'', optional_string (category st)),
                                    (js ''checked'', Bool False)]))) (\<lambda>items'.
            and_then (\<lambda>w1. (Inr (), saveShoppingList items' w1)) (\<lambda>_.
            and_then (call (SendMessage (chat_id msg)
                              (Added (category st) (name st) (msg_text msg)) NoOptions)) (\<lambda>_ w2.
              (Inr (), w2\<lparr>addItemStates := (addItemStates w2)(chat_id msg := None)\<rparr>)))))) w
          else (Inr (), w))"

subsection \<open>Item actions\<close>

text \<open>The second \<^verbatim>\<open>callback_query\<close> listener: remove and toggle.\<close>

text \<open>
  \<^verbatim>\<open>index < 0 || index >= shoppingList.items.length\<close>: the length is read only when the
  index is not negative.
\<close>

definition index_is_stale :: "jsnum \<Rightarrow> jsval \<Rightarrow> fault + bool" where
  "index_is_stale index shoppingList =
     (if num_less_zero index then Inr True
      else (case get_property shoppingList (js ''items'') of
              Inl e \<Rightarrow> Inl e
            | Inr items \<Rightarrow>
                (case as_array items of
                   Inl e \<Rightarrow> Inl e
                 | Inr xs \<Rightarrow> Inr (num_ge index (length xs)))))"

definition remove_item :: "callback_query \<Rightarrow> int \<Rightarrow> jsstring \<Rightarrow> unit comp" where
  "remove_item query chatId data =
     (let index = parseInt (replace data (js ''remove_'') [])
      in and_then loadShoppingList (\<lambda>shoppingList.
         and_then (lift (index_is_stale index shoppingList)) (\<lambda>stale.
           if stale then
             call (AnswerCallbackQuery (query_id query)
                     (Some (Text (js ''This item no longer exists in the list''), True)))
           else
             and_then (lift (get_property shoppingList (js ''items''))) (\<lambda>items.
             and_then (lift (as_array items)) (\<lambda>xs.
               (let removedItem = element xs index
                in and_then (\<lambda>w. (Inr (), saveShoppingList (Arr (splice xs index)) w)) (\<lambda>_.
                   and_then (lift (printable_property removedItem (js ''category''))) (\<lambda>cat.
                   and_then (lift (printable_property removedItem (js ''name''))) (\<lambda>nm.
                   and_then (call (SendMessage chatId (Removed cat nm) NoOptions)) (\<lambda>_.
                   call (AnswerCallbackQuery (query_id query) None)))))))))))"

definition toggle_item :: "callback_query \<Rightarrow> int \<Rightarrow> int \<Rightarrow> jsstring \<Rightarrow> unit comp" where
  "toggle_item query chatId messageId data =
     (let index = parseInt (replace data (js ''toggle_'') [])
      in and_then loadShoppingList (\<lambda>shoppingList.
         and_then (lift (index_is_stale index shoppingList)) (\<lambda>stale.
           if stale then
             call (AnswerCallbackQuery (query_id query)
                     (Some (Text (js ''This item no longer exists in the list''), True)))
           else
             and_then (lift (get_property shoppingList (js ''items''))) (\<lambda>items.
             and_then (lift (as_array items)) (\<lambda>xs.
             and_then (lift (get_property (element xs index) (js ''checked''))) (\<lambda>old.
             and_then (lift (set_property (element xs index) (js ''checked'')
                               (Bool (\<not> truthy old)))) (\<lambda>item'.
               (let xs' = set_element xs index item'
                in and_then (\<lambda>w. (Inr (), saveShoppingList (Arr xs') w)) (\<lambda>_.
                   and_then (lift (toggle_keyboard xs')) (\<lambda>keyboard.
                   and_then (call (EditMessageText
                                     (Text ([0x270F, 0xFE0F] @ js '' *Shopping List Checkoff*'' @ [0xA] @
                                            js ''Tap items to check/uncheck them:'' @ [0xA]))
                                     chatId messageId keyboard)) (\<lambda>_.
                   and_then (lift (printable_property (element xs' index) (js ''name''))) (\<lambda>nm.
                   and_then (lift (get_property (element xs' index) (js ''checked''))) (\<lambda>c.
                   call (AnswerCallbackQuery (query_id query)
                           (Some (Toggled nm (truthy c), False))))))))))))))))"

definition on_action_query :: "callback_query \<Rightarrow> unit comp" where
  "on_action_query query w =
     (case query_message query of
        None \<Rightarrow> (Inl TypeError, w)
      | Some (chatId, messageId) \<Rightarrow>
          (case query_data query of
             None \<Rightarrow> (Inl TypeError, w)
           | Some data \<Rightarrow>
               if startsWith data (js ''remove_'') then remove_item query chatId data w
               else if startsWith data (js ''toggle_'') then toggle_item query chatId messageId data w
               else (Inr (), w)))"

subsection \<open>Dispatch\<close>

text \<open>
  The Telegram client hands a message to the \<^verbatim>\<open>message\<close> listener and then, when
  the message has a text, to every \<^verbatim>\<open>onText\<close> callback whose pattern occurs somewhere
  in the text, in the order of registration; a pressed button goes to both
  \<^verbatim>\<open>callback_query\<close> listeners. Each listener is taken to run to its end before the
  next one starts (the source has no coordination between them), and how one ends
  does not stop the others.
\<close>

datatype update = Message message | CallbackQuery callback_query

definition textRegexpCallbacks :: "(jsstring \<times> (message \<Rightarrow> unit comp)) list" where
  "textRegexpCallbacks =
     [(js ''/start'', on_start),
      (js ''/help'', on_help),
      (js ''/categories'', on_categories),
      (js ''/list'', on_list),
      (js ''/add'', on_add),
      (js ''/remove'', on_remove),
      (js ''/clear'', on_clear)]"

definition command_listeners :: "message \<Rightarrow> unit comp list" where
  "command_listeners msg =
     (case msg_text msg of
        None \<Rightarrow> []
      | Some t \<Rightarrow> map (\<lambda>(p, h). h msg) (filter (\<lambda>(p, h). includes_str t p) textRegexpCallbacks))"

fun run_listeners :: "unit comp list \<Rightarrow> world \<Rightarrow> (fault + unit) list \<times> world" where
  "run_listeners [] w = ([], w)"
| "run_listeners (l # ls) w =
     (case l w of (r, w1) \<Rightarrow> (case run_listeners ls w1 of (rs, w2) \<Rightarrow> (r # rs, w2)))"

fun process_update :: "update \<Rightarrow> world \<Rightarrow> (fault + unit) list \<times> world" where
  "process_update (Message msg) w = run_listeners (on_message msg # command_listeners msg) w"
| "process_update (CallbackQuery query) w =
     run_listeners [on_category_query query, on_action_query query] w"

fun process_updates :: "update list \<Rightarrow> world \<Rightarrow> world" where
  "process_updates [] w = w"
| "process_updates (u # us) w = process_updates us (snd (process_update u w))"

section \<open>The data model of the specification\<close>

text \<open>
  An Item as the specification describes it, the object that holds it (its keys in
  the order in which the add dialogue writes them), and the document of a shopping
  list.
\<close>

record item =
  item_name :: jsstring
  item_quantity :: jsstring
  item_category :: jsstring
  item_checked :: bool

definition item_object :: "item \<Rightarrow> jsval" where
  "item_object x =
     Obj [(js ''name'', Str (item_name x)),
          (js ''quantity'', Str (item_quantity x)),
          (js ''category'', Str (item_category x)),
          (js ''checked'', Bool (item_checked x))]"

definition shopping_list :: "item list \<Rightarrow> jsval" where
  "shopping_list xs = Obj [(js ''items'', Arr (map item_object xs))]"

text \<open>The file holds a text that parses to the shopping list \<open>xs\<close>.\<close>

definition holds :: "world \<Rightarrow> item list \<Rightarrow> bool" where
  "holds w xs \<longleftrightarrow>
     (case json_file w of None \<Rightarrow> False | Some t \<Rightarrow> JSON_parse t = Parsed (shopping_list xs))"

text \<open>Flipping the checked flag of the item at position \<open>i\<close>.\<close>

definition toggled :: "item list \<Rightarrow> nat \<Rightarrow> item list" where
  "toggled xs i = xs[i := (xs ! i)\<lparr>item_checked := \<not> item_checked (xs ! i)\<rparr>]"

text \<open>The keyboard the toggle handler builds from a list of Items.\<close>

definition toggle_buttons :: "item list \<Rightarrow> button list" where
  "toggle_buttons ys =
     map (\<lambda>i. \<lparr>button_text = ToggleLabel (item_checked (ys ! i)) (Str (item_category (ys ! i)))
                                  (Str (item_name (ys ! i))) (Str (item_quantity (ys ! i))),
                callback_data = js ''toggle_'' @ decimal i\<rparr>) [0..<length ys]"

subsection \<open>Example data\<close>

definition apples :: item where
  "apples = \<lparr>item_name = js ''Apples'', item_quantity = js ''6'',
             item_category = js ''fruits'', item_checked = False\<rparr>"

definition milk :: item where
  "milk = \<lparr>item_name = js ''Milk'', item_quantity = js ''2 l'',
           item_category = js ''proteins'', item_checked = True\<rparr>"

text \<open>A fresh start: no conversation, no file yet, every call accepted.\<close>

definition fresh_world :: world where
  "fresh_world =
     \<lparr>addItemStates = Map.empty, json_file = None, read_only = False, log = [],
      transport = (\<lambda>n. None), calls = []\<rparr>"

text \<open>The same, after milk and apples have been saved.\<close>

definition stocked_world :: world where
  "stocked_world = saveShoppingList (Arr (map item_object [milk, apples])) fresh_world"

text \<open>A file that is no JSON.\<close>

definition corrupt_world :: world where
  "corrupt_world = fresh_world\<lparr>json_file := Some (js ''{items: oops'')\<rparr>"

text \<open>A press of a button with the action token \<open>d\<close>.\<close>

definition press :: "jsstring \<Rightarrow> callback_query" where
  "press d = \<lparr>query_id = js ''4211'', query_message = Some (7, 3), query_data = Some d\<rparr>"

text \<open>A chat that awaits the quantity of its apples.\<close>

definition awaiting_world :: world where
  "awaiting_world =
     stocked_world\<lparr>addItemStates :=
       [7 \<mapsto> \<lparr>state = awaiting_quantity, category = Some (js ''fruits''),
                name = Some (js ''Apples'')\<rparr>]\<rparr>"

text \<open>
  A channel that rejects the first call for its Markdown and every later call for
  flooding.
\<close>

definition parse_error :: api_error where
  "parse_error =
     \<lparr>error_code = Some 400,
      description = Some (js ''Bad Request: can'' @ [0x27] @ js ''t parse entities: Can'' @ [0x27]
                          @ js ''t find end of the entity starting at byte offset 1'')\<rparr>"

definition flood_error :: api_error where
  "flood_error =
     \<lparr>error_code = Some 429, description = Some (js ''Too Many Requests: retry after 5'')\<rparr>"

definition rejecting_world :: world where
  "rejecting_world =
     fresh_world\<lparr>transport := (\<lambda>n. if n = 0 then Some parse_error else Some flood_error)\<rparr>"

section \<open>Notions used in the proofs\<close>

text \<open>
  The tokens of the text that \<open>serialize\<close> writes for a value, and the tokens of an
  Item.
\<close>

fun tokens :: "jsval \<Rightarrow> token list option"
  and token_elements :: "jsval list \<Rightarrow> token list list"
  and token_members :: "(jsstring \<times> jsval) list \<Rightarrow> token list list" where
  "tokens Undefined = None"
| "tokens Null = Some [TNull]"
| "tokens (Bool b) = Some [if b then TTrue else TFalse]"
| "tokens (Str s) = Some [TString s]"
| "tokens (Arr xs) = Some (LBracket # join [Comma] (token_elements xs) @ [RBracket])"
| "tokens (Obj ps) = Some (LBrace # join [Comma] (token_members ps) @ [RBrace])"
| "token_elements [] = []"
| "token_elements (x # xs) = (case tokens x of None \<Rightarrow> [TNull] | Some ts \<Rightarrow> ts) # token_elements xs"
| "token_members [] = []"
| "token_members (p # ps) =
     (case tokens (snd p) of
        None \<Rightarrow> token_members ps
      | Some ts \<Rightarrow> (TString (fst p) # Colon # ts) # token_members ps)"

definition item_tokens :: "item \<Rightarrow> token list" where
  "item_tokens x =
     [LBrace, TString (js ''name''), Colon, TString (item_name x), Comma,
      TString (js ''quantity''), Colon, TString (item_quantity x), Comma,
      TString (js ''category''), Colon, TString (item_category x), Comma,
      TString (js ''checked''), Colon, if item_checked x then TTrue else TFalse, RBrace]"

definition prepend :: "token list \<Rightarrow> token list option \<Rightarrow> token list option" where
  "prepend ts r = (case r of None \<Rightarrow> None | Some us \<Rightarrow> Some (ts @ us))"

text \<open>\<open>lexes t ts\<close>: the lexer reads the tokens \<open>ts\<close> from \<open>t\<close>, whatever follows.\<close>

definition lexes :: "jsstring \<Rightarrow> token list \<Rightarrow> bool" where
  "lexes t ts \<longleftrightarrow> (\<forall>rest. scan (t @ rest) = prepend ts (scan rest))"

text \<open>A text in which every surrogate has its partner.\<close>

definition plain :: "unit16 \<Rightarrow> bool" where
  "plain c \<longleftrightarrow> \<not> is_leading_surrogate c \<and> \<not> is_trailing_surrogate c"

definition well_formed :: "jsstring \<Rightarrow> bool" where
  "well_formed t \<longleftrightarrow> toWellFormed t = t"

section \<open>Lemmas\<close>

subsection \<open>Strings: what QuoteJSONString writes is read back\<close>

lemma hex_split:
  "((n div 4096 * 16 + n div 256 mod 16) * 16 + n div 16 mod 16) * 16 + n mod 16 = (n::nat)"
proof -
  have 1: "n div 256 = n div 16 div 16" by (simp add: div_mult2_eq [symmetric])
  have 2: "n div 4096 = n div 16 div 16 div 16" by (simp add: div_mult2_eq [symmetric])
  have 3: "\<And>m::nat. m div 16 * 16 + m mod 16 = m" by simp
  show ?thesis unfolding 1 2 by (simp only: 3)
qed

lemma lt16_cases:
  "d < 16 \<Longrightarrow> d = 0 \<or> d = 1 \<or> d = 2 \<or> d = 3 \<or> d = 4 \<or> d = 5 \<or> d = 6 \<or> d = 7 \<or> d = 8
     \<or> d = 9 \<or> d = 10 \<or> d = 11 \<or> d = 12 \<or> d = 13 \<or> d = 14 \<or> d = (15::nat)"
  by arith

lemma hex_value_hex_digit: "d < 16 \<Longrightarrow> hex_value (hex_digit d) = Some d"
  by (drule lt16_cases) (elim disjE; simp add: hex_value_def hex_digit_def)

lemma unat16_less: "unat (c :: unit16) < 65536"
  using unsigned_less [of c, where 'a = nat] by simp

lemma hex4_unicode:
  "hex4 (hex_digit (unat c div 4096)) (hex_digit (unat c div 256 mod 16))
        (hex_digit (unat c div 16 mod 16)) (hex_digit (unat c mod 16)) = Some (c :: unit16)"
proof -
  have a: "unat c div 4096 < 16" using unat16_less [of c] by simp
  have "hex4 (hex_digit (unat c div 4096)) (hex_digit (unat c div 256 mod 16))
        (hex_digit (unat c div 16 mod 16)) (hex_digit (unat c mod 16))
      = Some (of_nat (((unat c div 4096 * 16 + unat c div 256 mod 16) * 16 + unat c div 16 mod 16) * 16 + unat c mod 16))"
    unfolding hex4_def by (simp only: hex_value_hex_digit a mod_less_divisor zero_less_numeral prod.case option.case)
  moreover have "(of_nat (unat c) :: unit16) = c" by simp
  ultimately show ?thesis by (simp only: hex_split)
qed

lemma lex_string_raw:
  "c \<noteq> 0x22 \<Longrightarrow> c \<noteq> 0x5C \<Longrightarrow> \<not> c < 0x20 \<Longrightarrow> lex_string (c # r) = cons_unit c (lex_string r)"
  by simp

lemma lex_string_unicode_escape:
  "lex_string (unicode_escape c @ r) = cons_unit c (lex_string r)"
  unfolding unicode_escape_def Let_def by (simp add: hex4_unicode)

lemma surrogate_raw:
  "is_leading_surrogate c \<or> is_trailing_surrogate c \<Longrightarrow> c \<noteq> 0x22 \<and> c \<noteq> 0x5C \<and> \<not> c < 0x20"
  by (auto simp: is_leading_surrogate_def is_trailing_surrogate_def word_le_nat_alt word_less_nat_alt)

lemma lex_string_quote_unit:
  "lex_string (quote_unit c @ r) = cons_unit c (lex_string r)"
proof -
  consider "c = 0x08" | "c = 0x09" | "c = 0x0A" | "c = 0x0C" | "c = 0x0D" | "c = 0x22" | "c = 0x5C"
    | "c \<noteq> 0x08" "c \<noteq> 0x09" "c \<noteq> 0x0A" "c \<noteq> 0x0C" "c \<noteq> 0x0D" "c \<noteq> 0x22" "c \<noteq> 0x5C"
      "c < 0x20 \<or> is_leading_surrogate c \<or> is_trailing_surrogate c"
    | "c \<noteq> 0x08" "c \<noteq> 0x09" "c \<noteq> 0x0A" "c \<noteq> 0x0C" "c \<noteq> 0x0D" "c \<noteq> 0x22" "c \<noteq> 0x5C"
      "\<not> (c < 0x20 \<or> is_leading_surrogate c \<or> is_trailing_surrogate c)"
    by blast
  then show ?thesis
  proof cases
    case 8
    then show ?thesis
      by (simp only: quote_unit_def if_False if_True lex_string_unicode_escape)
  next
    case 9
    then have "quote_unit c = [c]" by (simp only: quote_unit_def if_False)
    with 9 show ?thesis by (simp add: lex_string_raw del: lex_string.simps)
  qed (simp_all add: quote_unit_def unescape_def)
qed

lemma lex_string_quote_units:
  "lex_string (quote_units s @ 0x22 # rest) = Some (s, rest)"
proof (induction s rule: quote_units.induct)
  case 1
  show ?case by simp
next
  case (2 c)
  have "lex_string (quote_unit c @ 0x22 # rest) = cons_unit c (lex_string (0x22 # rest))"
    by (rule lex_string_quote_unit)
  then show ?case by (simp add: cons_unit_def)
next
  case (3 c d cs)
  show ?case
  proof (cases "is_leading_surrogate c \<and> is_trailing_surrogate d")
    case True
    then have "lex_string (c # d # quote_units cs @ 0x22 # rest)
        = cons_unit c (cons_unit d (lex_string (quote_units cs @ 0x22 # rest)))"
      using surrogate_raw [of c] surrogate_raw [of d] by (simp del: lex_string.simps add: lex_string_raw)
    with True 3 show ?thesis by (simp add: cons_unit_def del: lex_string.simps)
  next
    case False
    then have q: "quote_units (c # d # cs) = quote_unit c @ quote_units (d # cs)"
      by auto
    have "lex_string (quote_unit c @ quote_units (d # cs) @ 0x22 # rest)
        = cons_unit c (lex_string (quote_units (d # cs) @ 0x22 # rest))"
      by (rule lex_string_quote_unit)
    with "3.IH"(2) [OF False] show ?thesis
      unfolding q by (simp add: cons_unit_def del: lex_string.simps quote_units.simps)
  qed
qed

lemma scan_QuoteJSONString:
  "scan (QuoteJSONString s @ rest) = cons_token (TString s) (scan rest)"
  by (simp add: QuoteJSONString_def is_json_ws_def lex_string_quote_units)

lemma scan_indent: "scan (indent n @ rest) = scan rest"
  by (induction n) (simp_all add: indent_def is_json_ws_def)

lemma scan_newline: "scan (0x0A # rest) = scan rest"
  by (simp add: is_json_ws_def)

subsection \<open>Surrogates\<close>

lemma toWellFormed_raw:
  "\<not> is_leading_surrogate c \<Longrightarrow> \<not> is_trailing_surrogate c \<Longrightarrow> toWellFormed (c # cs) = c # toWellFormed cs"
  by (cases cs) simp_all

lemma toWellFormed_pair:
  "is_leading_surrogate c \<Longrightarrow> is_trailing_surrogate d \<Longrightarrow> toWellFormed (c # d # cs) = c # d # toWellFormed cs"
  by simp

lemma replacement_not_surrogate:
  "\<not> is_leading_surrogate 0xFFFD" "\<not> is_trailing_surrogate 0xFFFD"
  by (simp_all add: is_leading_surrogate_def is_trailing_surrogate_def)

lemma toWellFormed_append:
  "toWellFormed a = a \<Longrightarrow> toWellFormed (a @ b) = a @ toWellFormed b"
proof (induction a rule: toWellFormed.induct)
  case 1
  show ?case by simp
next
  case (2 c)
  then have "\<not> is_leading_surrogate c" "\<not> is_trailing_surrogate c"
    using replacement_not_surrogate by (auto split: if_splits)
  then show ?case by (simp add: toWellFormed_raw)
next
  case (3 c d cs)
  show ?case
  proof (cases "is_leading_surrogate c \<and> is_trailing_surrogate d")
    case True
    with 3 show ?thesis by simp
  next
    case False
    with "3.prems" have ns: "\<not> is_leading_surrogate c" "\<not> is_trailing_surrogate c"
      and t: "toWellFormed (d # cs) = d # cs"
      using replacement_not_surrogate by (auto split: if_splits)
    from "3.IH"(2) [OF False t] ns show ?thesis
      by (simp add: toWellFormed_raw del: toWellFormed.simps)
  qed
qed

subsection \<open>Scanning the text of a value\<close>

lemma prepend_simps [simp]:
  "prepend [] r = r"
  "prepend a (prepend b r) = prepend (a @ b) r"
  "cons_token t r = prepend [t] r"
  by (simp_all add: prepend_def cons_token_def split: option.splits)

lemma serialize_None: "serialize n v = None \<longleftrightarrow> v = Undefined"
  by (cases v) simp_all

lemma tokens_None: "tokens v = None \<longleftrightarrow> v = Undefined"
  by (cases v) simp_all

lemma lexesD: "lexes t ts \<Longrightarrow> scan (t @ rest) = prepend ts (scan rest)"
  by (simp add: lexes_def)

lemma lexes_append: "lexes a as \<Longrightarrow> lexes b bs \<Longrightarrow> lexes (a @ b) (as @ bs)"
  by (simp add: lexes_def)

lemma lexes_ws: "is_json_ws c \<Longrightarrow> lexes b bs \<Longrightarrow> lexes (c # b) bs"
  by (simp add: lexes_def)

lemma lexes_indent: "lexes b bs \<Longrightarrow> lexes (indent n @ b) bs"
  by (simp add: lexes_def scan_indent)

lemma lexes_Nil: "lexes [] []"
  by (simp add: lexes_def)

lemma lexes_punct:
  "lexes b bs \<Longrightarrow> lexes (0x7B # b) (LBrace # bs)"
  "lexes b bs \<Longrightarrow> lexes (0x7D # b) (RBrace # bs)"
  "lexes b bs \<Longrightarrow> lexes (0x5B # b) (LBracket # bs)"
  "lexes b bs \<Longrightarrow> lexes (0x5D # b) (RBracket # bs)"
  "lexes b bs \<Longrightarrow> lexes (0x3A # b) (Colon # bs)"
  "lexes b bs \<Longrightarrow> lexes (0x2C # b) (Comma # bs)"
  by (simp_all add: lexes_def is_json_ws_def)

lemma lexes_literals:
  "lexes (js ''null'') [TNull]"
  "lexes (js ''true'') [TTrue]"
  "lexes (js ''false'') [TFalse]"
  "lexes (js ''[]'') [LBracket, RBracket]"
  "lexes (js ''{}'') [LBrace, RBrace]"
  by (simp_all add: lexes_def js_def is_json_ws_def startsWith_def)

lemma lexes_QuoteJSONString: "lexes (QuoteJSONString s) [TString s]"
  by (simp add: lexes_def scan_QuoteJSONString)

lemma lexes_join:
  "list_all2 lexes texts toks \<Longrightarrow>
   lexes (join (0x2C # 0x0A # indent n) texts) (join [Comma] toks)"
proof (induction texts toks rule: list_all2_induct)
  case Nil
  show ?case by (simp add: lexes_Nil)
next
  case (Cons t texts ts toks)
  show ?case
  proof (cases texts)
    case Nil
    with Cons show ?thesis by simp
  next
    case (Cons t' texts')
    with Cons.hyps obtain ts' toks' where toks: "toks = ts' # toks'"
      by (cases toks) auto
    have "lexes (t @ 0x2C # 0x0A # indent n @ join (0x2C # 0x0A # indent n) texts)
            (ts @ Comma # join [Comma] toks)"
      using Cons.hyps(1) Cons.IH
      by (intro lexes_append lexes_punct lexes_ws lexes_indent) (simp_all add: is_json_ws_def)
    then show ?thesis using Cons toks by simp
  qed
qed

lemma lexes_serialize:
  "serialize n v = Some t \<Longrightarrow> \<exists>ts. tokens v = Some ts \<and> lexes t ts"
  "list_all2 lexes (serialize_elements n xs) (token_elements xs)"
  "list_all2 lexes (serialize_members n ps) (token_members ps)"
proof (induction n v and n xs and n ps arbitrary: t rule: serialize_serialize_elements_serialize_members.induct)
  case (1 n)
  then show ?case by simp
next
  case (2 n)
  then show ?case by (auto simp: lexes_literals)
next
  case (3 n b)
  then show ?case by (auto simp: lexes_literals)
next
  case (4 n s)
  then show ?case by (auto simp: lexes_QuoteJSONString)
next
  case (5 n xs)
  show ?case
  proof (cases "xs = []")
    case True
    with 5 show ?thesis by (auto simp: lexes_literals)
  next
    case False
    have "lexes (0x5B # 0x0A # indent (Suc n)
                @ join (0x2C # 0x0A # indent (Suc n)) (serialize_elements (Suc n) xs)
                @ 0x0A # indent n @ [0x5D])
            (LBracket # join [Comma] (token_elements xs) @ [RBracket])"
      using lexes_join [OF "5.IH" [OF False], of "Suc n"] lexes_Nil
      by (intro lexes_punct lexes_ws lexes_indent lexes_append) (simp_all add: is_json_ws_def)
    with False 5 show ?thesis by auto
  qed
next
  case (6 n ps)
  show ?case
  proof (cases "serialize_members (Suc n) ps = []")
    case True
    with "6.IH" have "token_members ps = []" by simp
    with True 6 show ?thesis by (auto simp: lexes_literals)
  next
    case False
    have "lexes (0x7B # 0x0A # indent (Suc n)
                @ join (0x2C # 0x0A # indent (Suc n)) (serialize_members (Suc n) ps)
                @ 0x0A # indent n @ [0x7D])
            (LBrace # join [Comma] (token_members ps) @ [RBrace])"
      using lexes_join [OF "6.IH", of "Suc n"] lexes_Nil
      by (intro lexes_punct lexes_ws lexes_indent lexes_append) (simp_all add: is_json_ws_def)
    with False 6 show ?thesis by (auto simp: Let_def)
  qed
next
  case (7 n)
  show ?case by simp
next
  case (8 n x xs)
  show ?case
  proof (cases "serialize n x")
    case None
    then have "tokens x = None" by (simp add: serialize_None tokens_None)
    with None 8 show ?thesis by (simp add: lexes_literals)
  next
    case (Some t)
    from "8.IH"(1) [OF Some] obtain ts where "tokens x = Some ts" "lexes t ts" by blast
    with Some 8 show ?thesis by simp
  qed
next
  case (9 n)
  show ?case by simp
next
  case (10 n p ps)
  show ?case
  proof (cases "serialize n (snd p)")
    case None
    then have "tokens (snd p) = None" by (simp add: serialize_None tokens_None)
    with None 10 show ?thesis by simp
  next
    case (Some t)
    from "10.IH"(1) [OF Some] obtain ts where ts: "tokens (snd p) = Some ts" "lexes t ts" by blast
    have "lexes (QuoteJSONString (fst p) @ 0x3A # 0x20 # t) ([TString (fst p)] @ Colon # ts)"
      using ts(2)
      by (intro lexes_append lexes_QuoteJSONString lexes_punct lexes_ws) (simp_all add: is_json_ws_def)
    with Some ts 10 show ?thesis by simp
  qed
qed

subsection \<open>The text of a value is well formed\<close>

lemma well_formed_Nil: "well_formed []"
  by (simp add: well_formed_def)

lemma well_formed_append: "well_formed a \<Longrightarrow> well_formed b \<Longrightarrow> well_formed (a @ b)"
  by (simp add: well_formed_def toWellFormed_append)

lemma well_formed_Cons: "plain c \<Longrightarrow> well_formed b \<Longrightarrow> well_formed (c # b)"
  by (simp add: well_formed_def plain_def toWellFormed_raw)

lemma well_formed_pair:
  "is_leading_surrogate c \<Longrightarrow> is_trailing_surrogate d \<Longrightarrow> well_formed b \<Longrightarrow> well_formed (c # d # b)"
  by (simp add: well_formed_def)

lemma well_formed_plain: "list_all plain t \<Longrightarrow> well_formed t"
  by (induction t) (simp_all add: well_formed_Nil well_formed_Cons)

lemma plain_numerals:
  "plain 0x5C" "plain 0x62" "plain 0x74" "plain 0x6E" "plain 0x66" "plain 0x72" "plain 0x22"
  "plain 0x75" "plain 0x20" "plain 0x0A" "plain 0x2C" "plain 0x3A" "plain 0x5B" "plain 0x5D"
  "plain 0x7B" "plain 0x7D"
  by (simp_all add: plain_def is_leading_surrogate_def is_trailing_surrogate_def)

lemma plain_hex_digit: "d < 16 \<Longrightarrow> plain (hex_digit d)"
  by (drule lt16_cases)
    (elim disjE; simp add: hex_digit_def plain_def is_leading_surrogate_def is_trailing_surrogate_def)

lemma well_formed_unicode_escape: "well_formed (unicode_escape c)"
proof -
  have "unat c div 4096 < 16" using unat16_less [of c] by simp
  then show ?thesis
    unfolding unicode_escape_def Let_def
    by (intro well_formed_Cons well_formed_Nil plain_numerals plain_hex_digit) simp_all
qed

lemma well_formed_quote_unit: "well_formed (quote_unit c)"
proof (cases "c < 0x20 \<or> is_leading_surrogate c \<or> is_trailing_surrogate c")
  case True
  then show ?thesis
    by (auto simp: quote_unit_def well_formed_unicode_escape
        intro!: well_formed_Cons well_formed_Nil plain_numerals)
next
  case False
  then have "plain c" by (simp add: plain_def)
  then show ?thesis
    using False
    by (auto simp: quote_unit_def intro!: well_formed_Cons well_formed_Nil plain_numerals)
qed

lemma well_formed_quote_units: "well_formed (quote_units s)"
proof (induction s rule: quote_units.induct)
  case 1
  show ?case by (simp add: well_formed_Nil)
next
  case (2 c)
  show ?case by (simp add: well_formed_quote_unit)
next
  case (3 c d cs)
  then show ?case
    by (auto intro: well_formed_pair well_formed_append well_formed_quote_unit)
qed

lemma well_formed_QuoteJSONString: "well_formed (QuoteJSONString s)"
  unfolding QuoteJSONString_def
  by (intro well_formed_Cons well_formed_append well_formed_quote_units well_formed_Nil plain_numerals)

lemma well_formed_indent: "well_formed (indent n)"
  by (rule well_formed_plain) (simp add: indent_def list_all_iff plain_numerals)

lemma well_formed_literals:
  "well_formed (js ''null'')" "well_formed (js ''true'')" "well_formed (js ''false'')"
  "well_formed (js ''[]'')" "well_formed (js ''{}'')"
  by (rule well_formed_plain,
      simp add: js_def plain_def is_leading_surrogate_def is_trailing_surrogate_def)+

lemma well_formed_join:
  "well_formed sep \<Longrightarrow> list_all well_formed ts \<Longrightarrow> well_formed (join sep ts)"
  by (induction sep ts rule: join.induct) (simp_all add: well_formed_Nil well_formed_append)

lemma well_formed_serialize:
  "serialize n v = Some t \<Longrightarrow> well_formed t"
  "list_all well_formed (serialize_elements n xs)"
  "list_all well_formed (serialize_members n ps)"
proof (induction n v and n xs and n ps arbitrary: t rule: serialize_serialize_elements_serialize_members.induct)
  case (5 n xs)
  have sep: "well_formed (0x2C # 0x0A # indent (Suc n))"
    by (intro well_formed_Cons well_formed_indent plain_numerals)
  show ?case
  proof (cases "xs = []")
    case True
    with 5 show ?thesis by (auto simp: well_formed_literals)
  next
    case False
    have "well_formed (0x5B # 0x0A # indent (Suc n)
                @ join (0x2C # 0x0A # indent (Suc n)) (serialize_elements (Suc n) xs)
                @ 0x0A # indent n @ [0x5D])"
      using well_formed_join [OF sep "5.IH" [OF False]]
      by (intro well_formed_Cons well_formed_append well_formed_indent well_formed_Nil plain_numerals)
    with False 5 show ?thesis by auto
  qed
next
  case (6 n ps)
  have sep: "well_formed (0x2C # 0x0A # indent (Suc n))"
    by (intro well_formed_Cons well_formed_indent plain_numerals)
  have "well_formed (0x7B # 0x0A # indent (Suc n)
                @ join (0x2C # 0x0A # indent (Suc n)) (serialize_members (Suc n) ps)
                @ 0x0A # indent n @ [0x7D])"
    using well_formed_join [OF sep "6.IH"]
    by (intro well_formed_Cons well_formed_append well_formed_indent well_formed_Nil plain_numerals)
  with 6 show ?case by (auto simp: Let_def well_formed_literals)
next
  case (8 n x xs)
  then show ?case by (auto simp: well_formed_literals split: option.splits)
next
  case (10 n p ps)
  then show ?case
    by (auto split: option.splits
        intro!: well_formed_append well_formed_QuoteJSONString well_formed_Cons plain_numerals)
qed (auto simp: well_formed_literals well_formed_QuoteJSONString)

subsection \<open>Parsing the tokens of a shopping list\<close>

lemma tokens_item_object: "tokens (item_object x) = Some (item_tokens x)"
  by (simp add: item_object_def item_tokens_def)

lemma token_elements_items: "token_elements (map item_object xs) = map item_tokens xs"
  by (induction xs) (simp_all add: tokens_item_object)

lemma tokens_shopping_list:
  "tokens (shopping_list xs)
     = Some ([LBrace, TString (js ''items''), Colon, LBracket]
             @ join [Comma] (map item_tokens xs) @ [RBracket, RBrace])"
  by (simp add: shopping_list_def token_elements_items)

lemma item_keys:
  "array_index (js ''name'') = None"
  "array_index (js ''quantity'') = None"
  "array_index (js ''category'') = None"
  "array_index (js ''checked'') = None"
  "array_index (js ''items'') = None"
  by (simp_all add: array_index_def js_def is_digit_def)

lemma put_item_properties:
  "put_property
     (put_property
        (put_property (put_property [] (js ''name'') a) (js ''quantity'') b)
        (js ''category'') c)
     (js ''checked'') d
   = [(js ''name'', a), (js ''quantity'', b), (js ''category'', c), (js ''checked'', d)]"
  by (simp add: put_property_def item_keys) (simp add: js_def)

lemma parse_item:
  assumes "e = ExpValue \<or> e = ExpValueOrEnd"
  shows "foldl parse_step (Reading e (ArrayFrame acc # st)) (item_tokens x @ rest)
       = foldl parse_step (Reading ExpNext (ArrayFrame (item_object x # acc) # st)) rest"
proof -
  have "foldl parse_step (Reading e (ArrayFrame acc # st)) (item_tokens x)
      = Reading ExpNext (ArrayFrame (item_object x # acc) # st)"
    using assms
    by (auto simp: item_tokens_def item_object_def put_item_properties)
  then show ?thesis by simp
qed

lemma parse_more_items:
  "foldl parse_step (Reading ExpNext (ArrayFrame acc # st))
       (concat (map (\<lambda>x. Comma # item_tokens x) xs) @ rest)
   = foldl parse_step (Reading ExpNext (ArrayFrame (rev (map item_object xs) @ acc) # st)) rest"
proof (induction xs arbitrary: acc)
  case Nil
  show ?case by simp
next
  case (Cons x xs)
  have "foldl parse_step (Reading ExpNext (ArrayFrame acc # st))
          (Comma # item_tokens x @ concat (map (\<lambda>x. Comma # item_tokens x) xs) @ rest)
      = foldl parse_step (Reading ExpValue (ArrayFrame acc # st))
          (item_tokens x @ concat (map (\<lambda>x. Comma # item_tokens x) xs) @ rest)"
    by simp
  also have "\<dots> = foldl parse_step (Reading ExpNext (ArrayFrame (item_object x # acc) # st))
          (concat (map (\<lambda>x. Comma # item_tokens x) xs) @ rest)"
    by (rule parse_item) simp
  also have "\<dots> = foldl parse_step
          (Reading ExpNext (ArrayFrame (rev (map item_object xs) @ item_object x # acc) # st)) rest"
    by (rule Cons.IH)
  finally show ?case by simp
qed

lemma join_comma:
  "join [Comma] (ts # tss) = ts @ concat (map (\<lambda>us. Comma # us) tss)"
  by (induction tss arbitrary: ts) simp_all

lemma parse_tokens_shopping_list:
  "parse_tokens ([LBrace, TString (js ''items''), Colon, LBracket]
                 @ join [Comma] (map item_tokens xs) @ [RBracket, RBrace])
   = Some (shopping_list xs)"
proof (cases xs)
  case Nil
  then show ?thesis
    by (simp add: parse_tokens_def shopping_list_def put_property_def item_keys)
next
  case (Cons x xs')
  have j: "join [Comma] (map item_tokens (x # xs'))
      = item_tokens x @ concat (map (\<lambda>x. Comma # item_tokens x) xs')"
    by (simp add: join_comma comp_def del: join.simps)
  have "foldl parse_step (Reading ExpValue [])
          ([LBrace, TString (js ''items''), Colon, LBracket]
           @ join [Comma] (map item_tokens (x # xs')) @ [RBracket, RBrace])
      = foldl parse_step (Reading ExpValueOrEnd [ArrayFrame [], ObjectFrame [] (Some (js ''items''))])
          (item_tokens x @ concat (map (\<lambda>x. Comma # item_tokens x) xs') @ [RBracket, RBrace])"
    unfolding j by simp
  also have "\<dots> = foldl parse_step
          (Reading ExpNext [ArrayFrame [item_object x], ObjectFrame [] (Some (js ''items''))])
          (concat (map (\<lambda>x. Comma # item_tokens x) xs') @ [RBracket, RBrace])"
    by (rule parse_item) simp
  also have "\<dots> = foldl parse_step
          (Reading ExpNext [ArrayFrame (rev (map item_object xs') @ [item_object x]),
                            ObjectFrame [] (Some (js ''items''))])
          [RBracket, RBrace]"
    by (rule parse_more_items)
  also have "\<dots> = Finished (shopping_list (x # xs'))"
    by (simp add: shopping_list_def put_property_def item_keys)
  finally show ?thesis
    using Cons by (simp add: parse_tokens_def)
qed

lemma no_number_in_items: "TNumber \<notin> set (join [Comma] (map item_tokens xs))"
proof (induction xs)
  case Nil
  show ?case by simp
next
  case (Cons x xs)
  then show ?case
    by (cases xs) (auto simp: item_tokens_def)
qed

lemma serialize_shopping_list_Some: "\<exists>t. JSON_stringify (shopping_list xs) = Some t"
  by (simp add: JSON_stringify_def shopping_list_def)

lemma parse_stringify_shopping_list:
  assumes "JSON_stringify (shopping_list xs) = Some t"
  shows "toWellFormed t = t" and "JSON_parse t = Parsed (shopping_list xs)"
proof -
  from assms have s: "serialize 0 (shopping_list xs) = Some t"
    by (simp add: JSON_stringify_def)
  from well_formed_serialize(1) [OF s] show "toWellFormed t = t"
    by (simp add: well_formed_def)
  from lexes_serialize(1) [OF s] tokens_shopping_list [of xs]
  have "lexes t ([LBrace, TString (js ''items''), Colon, LBracket]
             @ join [Comma] (map item_tokens xs) @ [RBracket, RBrace])"
    by simp
  from lexesD [OF this, of "[]"]
  have l: "scan t = Some ([LBrace, TString (js ''items''), Colon, LBracket]
             @ join [Comma] (map item_tokens xs) @ [RBracket, RBrace])"
    by (simp add: prepend_def)
  show "JSON_parse t = Parsed (shopping_list xs)"
    unfolding JSON_parse_def l
    using parse_tokens_shopping_list [of xs] no_number_in_items [of xs]
    by simp
qed

subsection \<open>Handlers on a stored shopping list\<close>

lemma comp_simps [simp]:
  "return x w = (Inr x, w)"
  "throw e w = (Inl e, w)"
  "lift r w = (r, w)"
  by (simp_all add: return_def throw_def lift_def)

lemma and_then_Inr [simp]: "m w = (Inr x, w') \<Longrightarrow> and_then m f w = f x w'"
  by (simp add: and_then_def)

lemma and_then_Inl [simp]: "m w = (Inl e, w') \<Longrightarrow> and_then m f w = (Inl e, w')"
  by (simp add: and_then_def)

lemma and_then_lift [simp]:
  "and_then (lift (Inr x)) f = f x"
  "and_then (lift (Inl e)) f = throw e"
  by (rule ext, simp add: and_then_def lift_def throw_def)+

lemma logger_error_fields [simp]:
  "addItemStates (logger_error e w) = addItemStates w"
  "json_file (logger_error e w) = json_file w"
  "read_only (logger_error e w) = read_only w"
  "transport (logger_error e w) = transport w"
  "calls (logger_error e w) = calls w"
  "log (logger_error e w) = log w @ [e]"
  by (simp_all add: logger_error_def)

lemma saveShoppingList_fields [simp]:
  "addItemStates (saveShoppingList v w) = addItemStates w"
  "read_only (saveShoppingList v w) = read_only w"
  "transport (saveShoppingList v w) = transport w"
  "calls (saveShoppingList v w) = calls w"
  by (simp_all add: saveShoppingList_def split: option.splits)

lemma bot_call_fields [simp]:
  "addItemStates (snd (bot_call c w)) = addItemStates w"
  "json_file (snd (bot_call c w)) = json_file w"
  "read_only (snd (bot_call c w)) = read_only w"
  "transport (snd (bot_call c w)) = transport w"
  "log (snd (bot_call c w)) = log w"
  "calls (snd (bot_call c w)) = calls w @ [c]"
  "fst (bot_call c w) = transport w (length (calls w))"
  by (simp_all add: bot_call_def)

lemma call_fields [simp]:
  "addItemStates (snd (call c w)) = addItemStates w"
  "json_file (snd (call c w)) = json_file w"
  "read_only (snd (call c w)) = read_only w"
  "transport (snd (call c w)) = transport w"
  "log (snd (call c w)) = log w"
  "calls (snd (call c w)) = calls w @ [c]"
  by (simp_all add: call_def bot_call_def split: option.splits)

lemma holds_same_file: "json_file w' = json_file w \<Longrightarrow> holds w xs \<Longrightarrow> holds w' xs"
  by (simp add: holds_def)

lemma loadShoppingList_holds: "holds w xs \<Longrightarrow> loadShoppingList w = (Inr (shopping_list xs), w)"
  by (auto simp: holds_def loadShoppingList_def split: option.splits)

lemma holds_saveShoppingList:
  "\<not> read_only w \<Longrightarrow> holds (saveShoppingList (Arr (map item_object xs)) w) xs"
proof -
  assume w: "\<not> read_only w"
  obtain t where t: "JSON_stringify (shopping_list xs) = Some t"
    using serialize_shopping_list_Some by blast
  then have "JSON_stringify (Obj [(js ''items'', Arr (map item_object xs))]) = Some t"
    by (simp add: shopping_list_def)
  with w parse_stringify_shopping_list [OF t] show ?thesis
    by (simp add: saveShoppingList_def holds_def)
qed

lemma saveShoppingList_read_only:
  "read_only w \<Longrightarrow> json_file (saveShoppingList v w) = json_file w"
  by (simp add: saveShoppingList_def split: option.splits)

lemma items_shopping_list [simp]:
  "get_property (shopping_list xs) (js ''items'') = Inr (Arr (map item_object xs))"
  by (simp add: shopping_list_def)

lemma item_object_properties [simp]:
  "get_property (item_object x) (js ''name'') = Inr (Str (item_name x))"
  "get_property (item_object x) (js ''quantity'') = Inr (Str (item_quantity x))"
  "get_property (item_object x) (js ''category'') = Inr (Str (item_category x))"
  "get_property (item_object x) (js ''checked'') = Inr (Bool (item_checked x))"
  by (simp_all add: item_object_def js_def)

lemma item_object_printable [simp]:
  "printable_property (item_object x) (js ''name'') = Inr (Str (item_name x))"
  "printable_property (item_object x) (js ''quantity'') = Inr (Str (item_quantity x))"
  "printable_property (item_object x) (js ''category'') = Inr (Str (item_category x))"
  by (simp_all add: printable_property_def)

lemma item_object_set_checked [simp]:
  "set_property (item_object x) (js ''checked'') (Bool b) = Inr (item_object (x\<lparr>item_checked := b\<rparr>))"
  by (simp add: item_object_def put_property_def) (simp add: js_def)

lemma item_object_inject [simp]: "item_object x = item_object y \<longleftrightarrow> x = y"
  by (cases x, cases y) (auto simp: item_object_def)

lemma shopping_list_inject [simp]: "shopping_list xs = shopping_list ys \<longleftrightarrow> xs = ys"
  by (simp add: shopping_list_def inj_map_eq_map inj_on_def)

lemma startsWith_replace: "startsWith s p \<Longrightarrow> replace s p r = r @ drop (length p) s"
  by (cases s) (auto simp: startsWith_def)

lemma element_items [simp]:
  "i < length xs \<Longrightarrow> element (map item_object xs) (Fin (int i)) = item_object (xs ! i)"
  by simp

lemma splice_valid: "i \<le> length ys \<Longrightarrow> splice ys (Fin (int i)) = take i ys @ drop (Suc i) ys"
  by (simp add: splice_def Let_def min_def)

lemma splice_NaN: "splice ys NaN = drop 1 ys"
  by (simp add: splice_def)

lemma index_is_stale_items [simp]:
  "index_is_stale (Fin i) (shopping_list xs) = Inr (i < 0 \<or> int (length xs) \<le> i)"
  "index_is_stale NaN (shopping_list xs) = Inr False"
  by (auto simp: index_is_stale_def)

lemma index_is_stale_NaN: "index_is_stale NaN v \<noteq> Inr True"
  by (simp add: index_is_stale_def split: sum.splits)

lemma map_result_Inr: "(\<And>x. x \<in> set xs \<Longrightarrow> f x = Inr (g x)) \<Longrightarrow> map_result f xs = Inr (map g xs)"
  by (induction xs) simp_all

lemma indexOf_items: "i < length ys \<Longrightarrow> indexOf (map item_object ys) i = i"
  by (simp add: indexOf_def item_object_def)

lemma toggle_keyboard_items: "toggle_keyboard (map item_object ys) = Inr (toggle_buttons ys)"
proof -
  have "map_result (toggle_button (map item_object ys)) [0..<length ys]
      = Inr (map (\<lambda>i. \<lparr>button_text = ToggleLabel (item_checked (ys ! i)) (Str (item_category (ys ! i)))
                                  (Str (item_name (ys ! i))) (Str (item_quantity (ys ! i))),
                callback_data = js ''toggle_'' @ decimal i\<rparr>) [0..<length ys])"
    by (rule map_result_Inr) (simp add: toggle_button_def indexOf_items)
  then show ?thesis
    by (simp add: toggle_keyboard_def toggle_buttons_def)
qed

lemma remove_item_stale:
  assumes "holds w xs" and "parseInt (replace data (js ''remove_'') []) = Fin i"
    and "i < 0 \<or> int (length xs) \<le> i"
  shows "remove_item query chatId data w
       = call (AnswerCallbackQuery (query_id query)
                 (Some (Text (js ''This item no longer exists in the list''), True))) w"
  using assms by (simp add: remove_item_def Let_def and_then_def loadShoppingList_holds)

lemma remove_item_valid:
  assumes "holds w xs" and "parseInt (replace data (js ''remove_'') []) = Fin (int i)"
    and "i < length xs"
  shows "remove_item query chatId data w
       = and_then (call (SendMessage chatId
                           (Removed (Str (item_category (xs ! i))) (Str (item_name (xs ! i))))
                           NoOptions))
           (\<lambda>_. call (AnswerCallbackQuery (query_id query) None))
           (saveShoppingList (Arr (map item_object (take i xs @ drop (Suc i) xs))) w)"
  using assms
  by (simp add: remove_item_def Let_def and_then_def loadShoppingList_holds splice_valid take_map drop_map)

lemma remove_item_NaN:
  assumes "holds w xs" and "parseInt (replace data (js ''remove_'') []) = NaN"
  shows "remove_item query chatId data w
       = (Inl TypeError, saveShoppingList (Arr (map item_object (drop 1 xs))) w)"
  using assms
  by (simp add: remove_item_def Let_def and_then_def loadShoppingList_holds splice_NaN drop_map printable_property_def)

lemma toggle_item_stale:
  assumes "holds w xs" and "parseInt (replace data (js ''toggle_'') []) = Fin i"
    and "i < 0 \<or> int (length xs) \<le> i"
  shows "toggle_item query chatId messageId data w
       = call (AnswerCallbackQuery (query_id query)
                 (Some (Text (js ''This item no longer exists in the list''), True))) w"
  using assms by (simp add: toggle_item_def Let_def and_then_def loadShoppingList_holds)

lemma toggle_item_NaN:
  assumes "holds w xs" and "parseInt (replace data (js ''toggle_'') []) = NaN"
  shows "toggle_item query chatId messageId data w = (Inl TypeError, w)"
  using assms
  by (simp add: toggle_item_def Let_def and_then_def loadShoppingList_holds)

lemma toggle_item_valid:
  assumes "holds w xs" and "parseInt (replace data (js ''toggle_'') []) = Fin (int i)"
    and "i < length xs"
  shows "toggle_item query chatId messageId data w
       = and_then (call (EditMessageText
                           (Text ([0x270F, 0xFE0F] @ js '' *Shopping List Checkoff*'' @ [0xA] @
                                  js ''Tap items to check/uncheck them:'' @ [0xA]))
                           chatId messageId (toggle_buttons (toggled xs i))))
           (\<lambda>_. call (AnswerCallbackQuery (query_id query)
                         (Some (Toggled (Str (item_name (xs ! i))) (\<not> item_checked (xs ! i)), False))))
           (saveShoppingList (Arr (map item_object (toggled xs i))) w)"
proof -
  have u: "(map item_object xs)[i := item_object ((xs ! i)\<lparr>item_checked := \<not> item_checked (xs ! i)\<rparr>)]
        = map item_object (toggled xs i)"
    by (simp add: toggled_def map_update)
  have e: "element (map item_object (toggled xs i)) (Fin (int i))
        = item_object ((xs ! i)\<lparr>item_checked := \<not> item_checked (xs ! i)\<rparr>)"
    using assms(3) by (simp add: toggled_def)
  show ?thesis
    using assms
    by (simp add: toggle_item_def Let_def and_then_def loadShoppingList_holds u e toggle_keyboard_items
        del: element.simps)
qed

section \<open>Item store\<close>

lemma stocked_world_holds: "holds stocked_world [milk, apples]"
  unfolding stocked_world_def
  by (rule holds_saveShoppingList) (simp add: fresh_world_def)

lemma stocked_world_fields [simp]:
  "addItemStates stocked_world = Map.empty"
  "read_only stocked_world = False"
  "transport stocked_world = (\<lambda>n. None)"
  "calls stocked_world = []"
  by (simp_all add: stocked_world_def fresh_world_def)

text \<open>
  C4. Saving a sequence of Items and loading it again gives the same sequence, the
  empty one included: the loaded document is the shopping list of the Items saved
  (same length, same order, same fields, since \<open>shopping_list\<close> is injective), nothing
  is logged, and the array under \<^verbatim>\<open>items\<close> holds their objects. The file must take the
  write: a failed write is logged by \<^verbatim>\<open>saveShoppingList\<close> and leaves the old text.
\<close>

theorem save_load_round_trip:
  assumes "\<not> read_only w"
  shows "loadShoppingList (saveShoppingList (Arr (map item_object xs)) w)
           = (Inr (shopping_list xs), saveShoppingList (Arr (map item_object xs)) w)
         \<and> get_property (shopping_list xs) (js ''items'') = Inr (Arr (map item_object xs))
         \<and> (\<forall>ys. shopping_list ys = shopping_list xs \<longrightarrow> ys = xs)"
  using assms
  by (simp add: loadShoppingList_holds [OF holds_saveShoppingList])

theorem save_load_round_trip_witness:
  "\<not> read_only fresh_world
   \<and> fst (loadShoppingList (saveShoppingList (Arr (map item_object [milk, apples])) fresh_world))
       = Inr (shopping_list [milk, apples])
   \<and> fst (loadShoppingList (saveShoppingList (Arr (map item_object [])) fresh_world))
       = Inr (shopping_list [])"
proof -
  have w: "\<not> read_only fresh_world" by (simp add: fresh_world_def)
  from save_load_round_trip [OF w, of "[milk, apples]"] save_load_round_trip [OF w, of "[]"] w
  show ?thesis by simp
qed

text \<open>
  C8. When the file cannot be read, or its text is no JSON, \<^verbatim>\<open>loadShoppingList\<close>
  returns the empty shopping list and does not throw; the failure is logged and nothing
  else changes.
\<close>

theorem load_failure_gives_empty_list:
  assumes "json_file w = None \<or> (\<exists>data. json_file w = Some data \<and> JSON_parse data = SyntaxError)"
  shows "loadShoppingList w = (Inr (shopping_list []), w\<lparr>log := log w @ [LoadError]\<rparr>)"
  using assms
  by (auto simp: loadShoppingList_def shopping_list_def logger_error_def)

theorem load_failure_gives_empty_list_witness:
  "json_file fresh_world = None
   \<and> loadShoppingList fresh_world = (Inr (shopping_list []), fresh_world\<lparr>log := [LoadError]\<rparr>)
   \<and> JSON_parse (js ''{items: oops'') = SyntaxError
   \<and> loadShoppingList corrupt_world = (Inr (shopping_list []), corrupt_world\<lparr>log := [LoadError]\<rparr>)"
proof -
  have p: "JSON_parse (js ''{items: oops'') = SyntaxError"
    by (simp add: JSON_parse_def js_def is_json_ws_def startsWith_def is_digit_def prepend_def)
  have 1: "json_file fresh_world = None \<or>
      (\<exists>data. json_file fresh_world = Some data \<and> JSON_parse data = SyntaxError)"
    by (simp add: fresh_world_def)
  have 2: "json_file corrupt_world = None \<or>
      (\<exists>data. json_file corrupt_world = Some data \<and> JSON_parse data = SyntaxError)"
    using p by (simp add: corrupt_world_def fresh_world_def)
  from load_failure_gives_empty_list [OF 1] load_failure_gives_empty_list [OF 2] p
  show ?thesis by (simp add: fresh_world_def corrupt_world_def)
qed

section \<open>Item actions\<close>

text \<open>
  The action tokens of the keyboards are \<^verbatim>\<open>remove_\<close> or \<^verbatim>\<open>toggle_\<close> followed by the
  decimal digits of a position; \<^verbatim>\<open>parseInt\<close> reads the position back from them.
\<close>

lemma decimal_digit_unit: "d < 10 \<Longrightarrow> digit_value (of_nat (48 + d) :: unit16) = Some d"
proof -
  assume "d < 10"
  then have "d = 0 \<or> d = 1 \<or> d = 2 \<or> d = 3 \<or> d = 4 \<or> d = 5 \<or> d = 6 \<or> d = 7 \<or> d = 8 \<or> d = 9"
    by arith
  then show ?thesis
    by (elim disjE) (simp_all add: digit_value_def)
qed

lemma decimal_digits: "\<forall>c \<in> set (decimal n). \<exists>d < 10. c = of_nat (48 + d)"
proof (induction n rule: decimal.induct)
  case (1 n)
  show ?case
  proof (cases "n < 10")
    case True
    then show ?thesis by (subst decimal.simps) auto
  next
    case False
    have "\<exists>d<10. (of_nat (48 + n mod 10) :: unit16) = of_nat (48 + d)"
      by (rule exI [of _ "n mod 10"]) simp
    with False 1 show ?thesis
      by (subst decimal.simps) (simp del: of_nat_add)
  qed
qed

lemma decimal_not_Nil: "decimal n \<noteq> []"
  by (subst decimal.simps) simp

lemma radix_value_snoc:
  "radix_value R (Z @ [c]) = R * radix_value R Z + (case digit_value c of None \<Rightarrow> 0 | Some d \<Rightarrow> d)"
  by (simp add: radix_value_def)

lemma radix_value_decimal: "radix_value 10 (decimal n) = n"
proof (induction n rule: decimal.induct)
  case (1 n)
  show ?case
  proof (cases "n < 10")
    case True
    then show ?thesis
      by (subst decimal.simps) (simp add: radix_value_def decimal_digit_unit del: of_nat_add)
  next
    case False
    have "n mod 10 < 10" by simp
    then have "digit_value (of_nat (48 + n mod 10) :: unit16) = Some (n mod 10)"
      by (rule decimal_digit_unit)
    with False 1 show ?thesis
      by (subst decimal.simps) (simp add: radix_value_snoc del: of_nat_add)
  qed
qed

lemma decimal_unit_facts:
  assumes "d < 10"
  shows "\<not> is_white_space (of_nat (48 + d))" "is_radix_digit 10 (of_nat (48 + d))"
    "(of_nat (48 + d) :: unit16) \<noteq> 0x2B" "(of_nat (48 + d) :: unit16) \<noteq> 0x2D"
    "(of_nat (48 + d) :: unit16) \<noteq> 0x78" "(of_nat (48 + d) :: unit16) \<noteq> 0x58"
proof -
  from assms have "d = 0 \<or> d = 1 \<or> d = 2 \<or> d = 3 \<or> d = 4 \<or> d = 5 \<or> d = 6 \<or> d = 7 \<or> d = 8 \<or> d = 9"
    by arith
  then show "\<not> is_white_space (of_nat (48 + d))" "is_radix_digit 10 (of_nat (48 + d))"
    "(of_nat (48 + d) :: unit16) \<noteq> 0x2B" "(of_nat (48 + d) :: unit16) \<noteq> 0x2D"
    "(of_nat (48 + d) :: unit16) \<noteq> 0x78" "(of_nat (48 + d) :: unit16) \<noteq> 0x58"
    by (elim disjE; simp add: is_white_space_def is_radix_digit_def digit_value_def)+
qed

lemma parseInt_decimal: "parseInt (decimal n) = Fin (int n)"
proof -
  have all: "\<forall>c \<in> set (decimal n). \<not> is_white_space c \<and> is_radix_digit 10 c
      \<and> c \<noteq> 0x2B \<and> c \<noteq> 0x2D \<and> c \<noteq> 0x78 \<and> c \<noteq> 0x58"
  proof
    fix c
    assume "c \<in> set (decimal n)"
    then obtain d where d: "d < 10" and c: "c = of_nat (48 + d)"
      using decimal_digits [of n] by blast
    show "\<not> is_white_space c \<and> is_radix_digit 10 c
      \<and> c \<noteq> 0x2B \<and> c \<noteq> 0x2D \<and> c \<noteq> 0x78 \<and> c \<noteq> 0x58"
      unfolding c by (intro conjI decimal_unit_facts d)
  qed
  obtain c r where d: "decimal n = c # r"
    using decimal_not_Nil [of n] by (cases "decimal n") auto
  have c: "\<not> is_white_space c" "c \<noteq> 0x2B" "c \<noteq> 0x2D"
    using all d by auto
  have r: "r \<noteq> [] \<longrightarrow> hd r \<noteq> 0x78 \<and> hd r \<noteq> 0x58"
    using all d by (cases r) auto
  have nohex: "\<not> startsWith (decimal n) (js ''0x'')" "\<not> startsWith (decimal n) (js ''0X'')"
    unfolding d using r by (cases r; simp add: startsWith_def js_def)+
  have tw: "takeWhile (is_radix_digit 10) (decimal n) = decimal n"
    using all by (simp add: takeWhile_eq_all_conv)
  have s: "dropWhile is_white_space (decimal n) = decimal n"
    unfolding d using c by simp
  have sign: "(case decimal n of c # x \<Rightarrow> if c = 0x2D then - 1 else 1 | [] \<Rightarrow> (1::int)) = 1"
    unfolding d using c by simp
  have s1: "(case decimal n of c # r \<Rightarrow> if c = 0x2B \<or> c = 0x2D then r else decimal n
             | [] \<Rightarrow> decimal n) = decimal n"
    unfolding d using c by simp
  show ?thesis
    unfolding parseInt_def Let_def s sign s1
    by (simp add: nohex tw decimal_not_Nil radix_value_decimal)
qed

lemma parseInt_token:
  "parseInt (replace (js ''remove_'' @ decimal n) (js ''remove_'') []) = Fin (int n)"
  "parseInt (replace (js ''toggle_'' @ decimal n) (js ''toggle_'') []) = Fin (int n)"
  by (simp_all add: startsWith_replace startsWith_def parseInt_decimal)

lemma on_action_query_remove:
  assumes "query_message query = Some (chatId, messageId)" and "query_data query = Some data"
    and "startsWith data (js ''remove_'')"
  shows "on_action_query query w = remove_item query chatId data w"
  using assms by (simp add: on_action_query_def)

lemma on_action_query_toggle:
  assumes "query_message query = Some (chatId, messageId)" and "query_data query = Some data"
    and "startsWith data (js ''toggle_'')"
  shows "on_action_query query w = toggle_item query chatId messageId data w"
proof -
  from assms(3) have "\<not> startsWith data (js ''remove_'')"
    by (auto simp: startsWith_def js_def)
  with assms show ?thesis by (simp add: on_action_query_def)
qed

lemma two_calls_fields [simp]:
  "json_file (snd (and_then (call c) (\<lambda>_. call d) w)) = json_file w"
  "read_only (snd (and_then (call c) (\<lambda>_. call d) w)) = read_only w"
  "addItemStates (snd (and_then (call c) (\<lambda>_. call d) w)) = addItemStates w"
  "transport (snd (and_then (call c) (\<lambda>_. call d) w)) = transport w"
  "calls (snd (and_then (call c) (\<lambda>_. call d) w)) ! length (calls w) = c"
  "take (Suc (length (calls w))) (calls (snd (and_then (call c) (\<lambda>_. call d) w))) = calls w @ [c]"
  by (simp_all add: and_then_def call_def bot_call_def nth_append split: option.splits)

text \<open>
  C2. A remove token whose index is the integer \<open>i\<close>, on a stored list \<open>xs\<close>. When \<open>i\<close>
  is outside \<open>[0, length xs)\<close> the file is left as it is and the alert that the item no
  longer exists is sent. When \<open>i\<close> is an index (and the file takes the write), the stored
  list becomes \<open>xs\<close> without its element \<open>i\<close>: one shorter, the elements before \<open>i\<close> and
  after \<open>i\<close> in their order, and the confirmation that is sent names the category and
  the name of the element that was at \<open>i\<close>.
\<close>

theorem remove_at_bounds:
  assumes "holds w xs"
    and "query_message query = Some (chatId, messageId)"
    and "query_data query = Some data"
    and "startsWith data (js ''remove_'')"
    and "parseInt (replace data (js ''remove_'') []) = Fin i"
  shows "(i < 0 \<or> int (length xs) \<le> i \<longrightarrow>
            json_file (snd (on_action_query query w)) = json_file w
          \<and> holds (snd (on_action_query query w)) xs
          \<and> calls (snd (on_action_query query w))
              = calls w @ [AnswerCallbackQuery (query_id query)
                             (Some (Text (js ''This item no longer exists in the list''), True))])
       \<and> (0 \<le> i \<and> i < int (length xs) \<and> \<not> read_only w \<longrightarrow>
            holds (snd (on_action_query query w)) (take (nat i) xs @ drop (Suc (nat i)) xs)
          \<and> Suc (length (take (nat i) xs @ drop (Suc (nat i)) xs)) = length xs
          \<and> (\<forall>j < nat i. (take (nat i) xs @ drop (Suc (nat i)) xs) ! j = xs ! j)
          \<and> (\<forall>j. nat i \<le> j \<and> Suc j < length xs \<longrightarrow>
                 (take (nat i) xs @ drop (Suc (nat i)) xs) ! j = xs ! Suc j)
          \<and> calls (snd (on_action_query query w)) ! length (calls w)
              = SendMessage chatId
                  (Removed (Str (item_category (xs ! nat i))) (Str (item_name (xs ! nat i))))
                  NoOptions)"
proof (intro conjI impI)
  note q = on_action_query_remove [OF assms(2,3,4)]
  {
    assume stale: "i < 0 \<or> int (length xs) \<le> i"
    note r = remove_item_stale [OF assms(1) assms(5) stale, of query chatId]
    show "json_file (snd (on_action_query query w)) = json_file w"
      by (simp add: q r)
    then show "holds (snd (on_action_query query w)) xs"
      using assms(1) by (rule holds_same_file)
    show "calls (snd (on_action_query query w))
              = calls w @ [AnswerCallbackQuery (query_id query)
                             (Some (Text (js ''This item no longer exists in the list''), True))]"
      by (simp add: q r)
  }
  {
    assume valid: "0 \<le> i \<and> i < int (length xs) \<and> \<not> read_only w"
    then have i: "i = int (nat i)" "nat i < length xs" and w: "\<not> read_only w" by auto
    from assms(5) i(1) have p: "parseInt (replace data (js ''remove_'') []) = Fin (int (nat i))"
      by simp
    note r = remove_item_valid [OF assms(1) p i(2), of query chatId]
    have "json_file (snd (on_action_query query w))
        = json_file (saveShoppingList (Arr (map item_object (take (nat i) xs @ drop (Suc (nat i)) xs))) w)"
      unfolding q r by (rule two_calls_fields)
    then show "holds (snd (on_action_query query w)) (take (nat i) xs @ drop (Suc (nat i)) xs)"
      using holds_saveShoppingList [OF w] by (rule holds_same_file)
    show "Suc (length (take (nat i) xs @ drop (Suc (nat i)) xs)) = length xs"
      using i(2) by simp
    show "\<forall>j < nat i. (take (nat i) xs @ drop (Suc (nat i)) xs) ! j = xs ! j"
      using i(2) by (simp add: nth_append)
    show "\<forall>j. nat i \<le> j \<and> Suc j < length xs \<longrightarrow>
                 (take (nat i) xs @ drop (Suc (nat i)) xs) ! j = xs ! Suc j"
      using i(2) by (auto simp: nth_append min_def)
    have "calls (snd (on_action_query query w))
            ! length (calls (saveShoppingList (Arr (map item_object (take (nat i) xs @ drop (Suc (nat i)) xs))) w))
        = SendMessage chatId
                  (Removed (Str (item_category (xs ! nat i))) (Str (item_name (xs ! nat i))))
                  NoOptions"
      unfolding q r by (rule two_calls_fields)
    then show "calls (snd (on_action_query query w)) ! length (calls w)
              = SendMessage chatId
                  (Removed (Str (item_category (xs ! nat i))) (Str (item_name (xs ! nat i))))
                  NoOptions"
      by simp
  }
qed

lemma press_fields [simp]:
  "query_id (press d) = js ''4211''"
  "query_message (press d) = Some (7, 3)"
  "query_data (press d) = Some d"
  by (simp_all add: press_def)

lemma parseInt_examples:
  "parseInt (replace (js ''remove_1'') (js ''remove_'') []) = Fin 1"
  "parseInt (replace (js ''remove_5'') (js ''remove_'') []) = Fin 5"
  "parseInt (replace (js ''remove_x'') (js ''remove_'') []) = NaN"
  "parseInt (replace (js ''toggle_0'') (js ''toggle_'') []) = Fin 0"
  "parseInt (replace (js ''toggle_'') (js ''toggle_'') []) = NaN"
  by (simp_all add: parseInt_def js_def startsWith_def is_white_space_def is_radix_digit_def
      digit_value_def radix_value_def)

lemma startsWith_examples:
  "startsWith (js ''remove_1'') (js ''remove_'')"
  "startsWith (js ''remove_5'') (js ''remove_'')"
  "startsWith (js ''remove_x'') (js ''remove_'')"
  "startsWith (js ''toggle_0'') (js ''toggle_'')"
  "startsWith (js ''toggle_'') (js ''toggle_'')"
  by (simp_all add: js_def startsWith_def)

theorem remove_at_bounds_witness:
  "holds stocked_world [milk, apples]
   \<and> startsWith (js ''remove_1'') (js ''remove_'')
   \<and> parseInt (replace (js ''remove_1'') (js ''remove_'') []) = Fin 1
   \<and> holds (snd (on_action_query (press (js ''remove_1'')) stocked_world)) [milk]
   \<and> calls (snd (on_action_query (press (js ''remove_1'')) stocked_world)) ! 0
       = SendMessage 7 (Removed (Str (js ''fruits'')) (Str (js ''Apples''))) NoOptions
   \<and> parseInt (replace (js ''remove_5'') (js ''remove_'') []) = Fin 5
   \<and> holds (snd (on_action_query (press (js ''remove_5'')) stocked_world)) [milk, apples]
   \<and> calls (snd (on_action_query (press (js ''remove_5'')) stocked_world))
       = [AnswerCallbackQuery (js ''4211'')
            (Some (Text (js ''This item no longer exists in the list''), True))]"
  using
    remove_at_bounds [OF stocked_world_holds, of "press (js ''remove_1'')" 7 3 "js ''remove_1''" 1]
    remove_at_bounds [OF stocked_world_holds, of "press (js ''remove_5'')" 7 3 "js ''remove_5''" 5]
    stocked_world_holds
  by (simp add: parseInt_examples startsWith_examples apples_def)

lemma remove_item_NaN_calls:
  assumes "parseInt (replace data (js ''remove_'') []) = NaN"
  shows "calls (snd (remove_item query chatId data w)) = calls w"
  using assms
  by (auto simp: remove_item_def Let_def and_then_def loadShoppingList_def lift_def
      printable_property_def index_is_stale_def
      split: option.splits parsed.splits sum.splits prod.splits)

lemma toggle_item_NaN_calls:
  assumes "parseInt (replace data (js ''toggle_'') []) = NaN"
  shows "calls (snd (toggle_item query chatId messageId data w)) = calls w"
  using assms
  by (auto simp: toggle_item_def Let_def and_then_def loadShoppingList_def lift_def
      index_is_stale_def split: option.splits parsed.splits sum.splits prod.splits)

text \<open>
  C3. An action token whose index part is no number (\<^verbatim>\<open>parseInt\<close> gives \<^verbatim>\<open>NaN\<close>): the
  bounds check \<^verbatim>\<open>index < 0 || index >= length\<close> is true for no loaded value, and no call
  goes to the messaging channel, so the alert is never sent. On a stored list \<open>xs\<close>,
  remove saves \<open>xs\<close> without its first element (\<^verbatim>\<open>splice(NaN, 1)\<close> starts at 0) and then
  ends in a TypeError on \<^verbatim>\<open>removedItem.category\<close>; toggle ends in a TypeError on
  \<^verbatim>\<open>items[NaN].checked\<close> and changes nothing.
\<close>

theorem nan_index_passes_validation:
  assumes "query_message query = Some (chatId, messageId)"
    and "query_data query = Some data"
  shows "(startsWith data (js ''remove_'') \<and> parseInt (replace data (js ''remove_'') []) = NaN \<longrightarrow>
            index_is_stale (parseInt (replace data (js ''remove_'') [])) v \<noteq> Inr True
          \<and> calls (snd (on_action_query query w)) = calls w
          \<and> (holds w xs \<longrightarrow>
                on_action_query query w
                  = (Inl TypeError, saveShoppingList (Arr (map item_object (tl xs))) w))
          \<and> (holds w xs \<and> \<not> read_only w \<longrightarrow> holds (snd (on_action_query query w)) (tl xs)))
       \<and> (startsWith data (js ''toggle_'') \<and> parseInt (replace data (js ''toggle_'') []) = NaN \<longrightarrow>
            index_is_stale (parseInt (replace data (js ''toggle_'') [])) v \<noteq> Inr True
          \<and> calls (snd (on_action_query query w)) = calls w
          \<and> (holds w xs \<longrightarrow> on_action_query query w = (Inl TypeError, w)))"
proof (intro conjI impI)
  {
    assume a: "startsWith data (js ''remove_'') \<and> parseInt (replace data (js ''remove_'') []) = NaN"
    then have p: "parseInt (replace data (js ''remove_'') []) = NaN" by simp
    from a have q: "on_action_query query w = remove_item query chatId data w"
      using on_action_query_remove [OF assms] by simp
    show "index_is_stale (parseInt (replace data (js ''remove_'') [])) v \<noteq> Inr True"
      by (simp add: p index_is_stale_NaN)
    show "calls (snd (on_action_query query w)) = calls w"
      by (simp add: q remove_item_NaN_calls [OF p])
    {
      assume h: "holds w xs"
      show "on_action_query query w
                  = (Inl TypeError, saveShoppingList (Arr (map item_object (tl xs))) w)"
        by (simp add: q remove_item_NaN [OF h p] drop_Suc)
    }
    {
      assume h: "holds w xs \<and> \<not> read_only w"
      then have h1: "holds w xs" by simp
      have "on_action_query query w
                  = (Inl TypeError, saveShoppingList (Arr (map item_object (tl xs))) w)"
        by (simp add: q remove_item_NaN [OF h1 p] drop_Suc)
      with h show "holds (snd (on_action_query query w)) (tl xs)"
        by (simp add: holds_saveShoppingList)
    }
  }
  {
    assume a: "startsWith data (js ''toggle_'') \<and> parseInt (replace data (js ''toggle_'') []) = NaN"
    then have p: "parseInt (replace data (js ''toggle_'') []) = NaN" by simp
    from a have q: "on_action_query query w = toggle_item query chatId messageId data w"
      using on_action_query_toggle [OF assms] by simp
    show "index_is_stale (parseInt (replace data (js ''toggle_'') [])) v \<noteq> Inr True"
      by (simp add: p index_is_stale_NaN)
    show "calls (snd (on_action_query query w)) = calls w"
      by (simp add: q toggle_item_NaN_calls [OF p])
    {
      assume h: "holds w xs"
      show "on_action_query query w = (Inl TypeError, w)"
        by (simp add: q toggle_item_NaN [OF h p])
    }
  }
qed

lemma startsWith_other:
  "\<not> startsWith (js ''remove_x'') (js ''toggle_'')"
  "\<not> startsWith (js ''toggle_'') (js ''remove_'')"
  by (simp_all add: js_def startsWith_def)

theorem nan_index_passes_validation_witness:
  "startsWith (js ''remove_x'') (js ''remove_'')
   \<and> parseInt (replace (js ''remove_x'') (js ''remove_'') []) = NaN
   \<and> holds stocked_world [milk, apples]
   \<and> \<not> read_only stocked_world
   \<and> calls (snd (on_action_query (press (js ''remove_x'')) stocked_world)) = []
   \<and> fst (on_action_query (press (js ''remove_x'')) stocked_world) = Inl TypeError
   \<and> holds (snd (on_action_query (press (js ''remove_x'')) stocked_world)) [apples]
   \<and> startsWith (js ''toggle_'') (js ''toggle_'')
   \<and> parseInt (replace (js ''toggle_'') (js ''toggle_'') []) = NaN
   \<and> on_action_query (press (js ''toggle_'')) stocked_world = (Inl TypeError, stocked_world)"
  using
    nan_index_passes_validation [of "press (js ''remove_x'')" 7 3 "js ''remove_x''" Null
      stocked_world "[milk, apples]"]
    nan_index_passes_validation [of "press (js ''toggle_'')" 7 3 "js ''toggle_''" Null
      stocked_world "[milk, apples]"]
    stocked_world_holds holds_saveShoppingList [of stocked_world "[apples]"]
  by (simp add: parseInt_examples startsWith_examples startsWith_other)

lemma toggled_simps [simp]:
  "length (toggled xs i) = length xs"
  "j \<noteq> i \<Longrightarrow> toggled xs i ! j = xs ! j"
  "i < length xs \<Longrightarrow> item_name (toggled xs i ! i) = item_name (xs ! i)"
  "i < length xs \<Longrightarrow> item_quantity (toggled xs i ! i) = item_quantity (xs ! i)"
  "i < length xs \<Longrightarrow> item_category (toggled xs i ! i) = item_category (xs ! i)"
  "i < length xs \<Longrightarrow> item_checked (toggled xs i ! i) = (\<not> item_checked (xs ! i))"
  by (simp_all add: toggled_def)

lemma toggled_toggled: "toggled (toggled xs i) i = xs"
  by (cases "i < length xs") (simp_all add: toggled_def list_update_beyond)

lemma toggle_saves:
  assumes "holds w xs"
    and "query_message query = Some (chatId, messageId)"
    and "query_data query = Some data"
    and "startsWith data (js ''toggle_'')"
    and "parseInt (replace data (js ''toggle_'') []) = Fin (int i)"
    and "i < length xs"
  shows "json_file (snd (on_action_query query w))
           = json_file (saveShoppingList (Arr (map item_object (toggled xs i))) w)"
    and "read_only (snd (on_action_query query w)) = read_only w"
  unfolding on_action_query_toggle [OF assms(2,3,4)] toggle_item_valid [OF assms(1,5,6)]
  by simp_all

text \<open>
  C10. A toggle token whose index is a position \<open>i\<close> of the stored list \<open>xs\<close> (the file
  taking the write): the list that is saved is \<open>toggled xs i\<close>. It has the length of \<open>xs\<close>,
  every other position holds the same Item, and the Item at \<open>i\<close> keeps its name, quantity
  and category; only its checked flag is the opposite.
\<close>

theorem toggle_changes_only_checked:
  assumes "holds w xs"
    and "query_message query = Some (chatId, messageId)"
    and "query_data query = Some data"
    and "startsWith data (js ''toggle_'')"
    and "parseInt (replace data (js ''toggle_'') []) = Fin (int i)"
    and "i < length xs"
    and "\<not> read_only w"
  shows "holds (snd (on_action_query query w)) (toggled xs i)
       \<and> length (toggled xs i) = length xs
       \<and> (\<forall>j. j < length xs \<and> j \<noteq> i \<longrightarrow> toggled xs i ! j = xs ! j)
       \<and> item_name (toggled xs i ! i) = item_name (xs ! i)
       \<and> item_quantity (toggled xs i ! i) = item_quantity (xs ! i)
       \<and> item_category (toggled xs i ! i) = item_category (xs ! i)
       \<and> item_checked (toggled xs i ! i) = (\<not> item_checked (xs ! i))"
proof -
  have "holds (snd (on_action_query query w)) (toggled xs i)"
    using toggle_saves(1) [OF assms(1-6)] holds_saveShoppingList [OF assms(7)]
    by (rule holds_same_file)
  with assms(6) show ?thesis by simp
qed

theorem toggle_changes_only_checked_witness:
  "holds stocked_world [milk, apples]
   \<and> startsWith (js ''toggle_0'') (js ''toggle_'')
   \<and> parseInt (replace (js ''toggle_0'') (js ''toggle_'') []) = Fin 0
   \<and> \<not> read_only stocked_world
   \<and> holds (snd (on_action_query (press (js ''toggle_0'')) stocked_world))
        [milk\<lparr>item_checked := False\<rparr>, apples]"
  using
    toggle_changes_only_checked [OF stocked_world_holds,
      of "press (js ''toggle_0'')" 7 3 "js ''toggle_0''" 0]
    stocked_world_holds
  by (simp add: parseInt_examples startsWith_examples toggled_def milk_def)

text \<open>
  C5. Toggling the same valid position twice: after the first toggle the checked flag of
  the Item at \<open>i\<close> is the opposite, after the second the stored list is \<open>xs\<close> again, so the
  flag has its original value.
\<close>

theorem toggle_twice_restores:
  assumes "holds w xs"
    and "query_message query = Some (chatId, messageId)"
    and "query_data query = Some data"
    and "startsWith data (js ''toggle_'')"
    and "parseInt (replace data (js ''toggle_'') []) = Fin (int i)"
    and "i < length xs"
    and "\<not> read_only w"
  shows "holds (snd (on_action_query query w)) (toggled xs i)
       \<and> item_checked (toggled xs i ! i) = (\<not> item_checked (xs ! i))
       \<and> holds (snd (on_action_query query (snd (on_action_query query w)))) xs"
proof -
  let ?w1 = "snd (on_action_query query w)"
  have 1: "holds ?w1 (toggled xs i)"
    using toggle_saves(1) [OF assms(1-6)] holds_saveShoppingList [OF assms(7)]
    by (rule holds_same_file)
  have w1: "\<not> read_only ?w1"
    using toggle_saves(2) [OF assms(1-6)] assms(7) by simp
  have i1: "i < length (toggled xs i)"
    using assms(6) by simp
  have "holds (snd (on_action_query query ?w1)) (toggled (toggled xs i) i)"
    using toggle_saves(1) [OF 1 assms(2-5) i1] holds_saveShoppingList [OF w1]
    by (rule holds_same_file)
  with 1 assms(6) show ?thesis
    by (simp add: toggled_toggled)
qed

theorem toggle_twice_restores_witness:
  "holds stocked_world [milk, apples]
   \<and> startsWith (js ''toggle_0'') (js ''toggle_'')
   \<and> parseInt (replace (js ''toggle_0'') (js ''toggle_'') []) = Fin 0
   \<and> \<not> read_only stocked_world
   \<and> holds (snd (on_action_query (press (js ''toggle_0''))
              (snd (on_action_query (press (js ''toggle_0'')) stocked_world))))
        [milk, apples]"
  using
    toggle_twice_restores [OF stocked_world_holds,
      of "press (js ''toggle_0'')" 7 3 "js ''toggle_0''" 0]
    stocked_world_holds
  by (simp add: parseInt_examples startsWith_examples)

section \<open>The add dialogue\<close>

lemma command_listeners_examples:
  "command_listeners \<lparr>chat_id = c, msg_text = Some (js ''/add'')\<rparr>
     = [on_add \<lparr>chat_id = c, msg_text = Some (js ''/add'')\<rparr>]"
  "command_listeners \<lparr>chat_id = c, msg_text = Some (js ''Apples'')\<rparr> = []"
  "command_listeners \<lparr>chat_id = c, msg_text = Some (js ''6'')\<rparr> = []"
  by (simp_all add: command_listeners_def textRegexpCallbacks_def js_def startsWith_def)

lemma text_startsWith_examples:
  "text_startsWith (Some (js ''/add'')) (js ''/'')"
  "\<not> text_startsWith (Some (js ''Apples'')) (js ''/'')"
  "\<not> text_startsWith (Some (js ''6'')) (js ''/'')"
  "\<not> text_startsWith None (js ''/'')"
  by (simp_all add: text_startsWith_def js_def startsWith_def)

lemma on_message_command:
  "text_startsWith (msg_text msg) (js ''/'') \<Longrightarrow> on_message msg w = (Inr (), w)"
  by (simp add: on_message_def split: option.splits)

lemma on_message_no_state:
  "addItemStates w (chat_id msg) = None \<Longrightarrow> on_message msg w = (Inr (), w)"
  by (simp add: on_message_def)

lemma on_message_no_category:
  assumes "addItemStates w (chat_id msg) = Some st" and "state st = awaiting_name"
    and "\<not> string_truthy (category st)"
  shows "on_message msg w = (Inr (), w)"
  using assms by (simp add: on_message_def)

lemma on_add_world:
  "snd (on_add msg w)
     = w\<lparr>addItemStates := (addItemStates w)
            (chat_id msg \<mapsto> \<lparr>state = awaiting_name, category = None, name = None\<rparr>),
          calls := calls w @ [SendMessage (chat_id msg)
                                (Text (js ''Select a category for the new item:''))
                                (ReplyMarkup category_keyboard)]\<rparr>"
  by (simp add: on_add_def call_def bot_call_def split: option.splits)

lemma on_category_query_fields:
  assumes "query_message query = Some (chatId, messageId)" and "query_data query = Some data"
    and "startsWith data (js ''category_'')"
  shows "addItemStates (snd (on_category_query query w))
           = (addItemStates w)(chatId \<mapsto> \<lparr>state = awaiting_name,
                 category = Some (drop 9 data), name = None\<rparr>)"
    and "json_file (snd (on_category_query query w)) = json_file w"
    and "read_only (snd (on_category_query query w)) = read_only w"
    and "transport (snd (on_category_query query w)) = transport w"
proof -
  have "length (js ''category_'') = 9"
    by (simp add: js_def)
  then have r: "replace data (js ''category_'') [] = drop 9 data"
    using assms(3) by (simp add: startsWith_replace)
  show "addItemStates (snd (on_category_query query w))
           = (addItemStates w)(chatId \<mapsto> \<lparr>state = awaiting_name,
                 category = Some (drop 9 data), name = None\<rparr>)"
    and "json_file (snd (on_category_query query w)) = json_file w"
    and "read_only (snd (on_category_query query w)) = read_only w"
    and "transport (snd (on_category_query query w)) = transport w"
    using assms by (simp_all add: on_category_query_def r)
qed

lemma on_action_query_other:
  assumes "query_message query = Some (chatId, messageId)" and "query_data query = Some data"
    and "\<not> startsWith data (js ''remove_'')" and "\<not> startsWith data (js ''toggle_'')"
  shows "on_action_query query w = (Inr (), w)"
  using assms by (simp add: on_action_query_def)

lemma on_message_name_world:
  assumes "addItemStates w (chat_id msg) = Some st" and "state st = awaiting_name"
    and "string_truthy (category st)" and "\<not> text_startsWith (msg_text msg) (js ''/'')"
  shows "snd (on_message msg w)
     = w\<lparr>addItemStates := (addItemStates w)
            (chat_id msg \<mapsto> st\<lparr>name := msg_text msg, state := awaiting_quantity\<rparr>),
          calls := calls w @ [SendMessage (chat_id msg) (Text (js ''Enter the quantity:''))
                                NoOptions]\<rparr>"
  using assms by (simp add: on_message_def call_def bot_call_def split: option.splits)

lemma on_message_quantity:
  assumes "addItemStates w (chat_id msg) = Some st" and "state st = awaiting_quantity"
    and "\<not> text_startsWith (msg_text msg) (js ''/'')"
    and "holds w xs"
    and "name st = Some n" and "msg_text msg = Some q" and "category st = Some c"
    and "transport w (length (calls w)) = None"
  shows "on_message msg w
     = (Inr (), (saveShoppingList
          (Arr (map item_object
             (xs @ [\<lparr>item_name = n, item_quantity = q, item_category = c, item_checked = False\<rparr>])))
          w)
        \<lparr>calls := calls w @ [SendMessage (chat_id msg) (Added (Some c) (Some n) (Some q)) NoOptions],
         addItemStates := (addItemStates w)(chat_id msg := None)\<rparr>)"
  using assms
  by (simp add: on_message_def and_then_def loadShoppingList_holds optional_string_def
      item_object_def call_def bot_call_def)

lemma process_message_world:
  "snd (process_update (Message msg) w)
     = snd (run_listeners (command_listeners msg) (snd (on_message msg w)))"
  by (simp add: case_prod_beta)

lemma process_callback_world:
  "snd (process_update (CallbackQuery query) w)
     = snd (on_action_query query (snd (on_category_query query w)))"
  by (simp add: case_prod_beta)

text \<open>
  C1. The add command, the button of the category \<^verbatim>\<open>fruits\<close>, the text \<^verbatim>\<open>Apples\<close> and the
  text \<^verbatim>\<open>6\<close>, in one chat, on a stored list \<open>xs\<close>, with the file taking the write and
  every call accepted: afterwards the stored list is \<open>xs\<close> followed by the one Item
  \<^verbatim>\<open>{name: "Apples", quantity: "6", category: "fruits", checked: false}\<close>, and the chat has
  no conversation state (the states of the other chats are as before). The command
  begins with \<^verbatim>\<open>/\<close>, so a state the chat had before plays no part.
\<close>

theorem add_flow_appends_item:
  assumes "holds w xs" and "\<not> read_only w" and "\<forall>n. transport w n = None"
  shows "holds
           (process_updates
              [Message \<lparr>chat_id = chat, msg_text = Some (js ''/add'')\<rparr>,
               CallbackQuery \<lparr>query_id = q, query_message = Some (chat, m),
                              query_data = Some (js ''category_fruits'')\<rparr>,
               Message \<lparr>chat_id = chat, msg_text = Some (js ''Apples'')\<rparr>,
               Message \<lparr>chat_id = chat, msg_text = Some (js ''6'')\<rparr>] w)
           (xs @ [\<lparr>item_name = js ''Apples'', item_quantity = js ''6'',
                   item_category = js ''fruits'', item_checked = False\<rparr>])
       \<and> addItemStates
           (process_updates
              [Message \<lparr>chat_id = chat, msg_text = Some (js ''/add'')\<rparr>,
               CallbackQuery \<lparr>query_id = q, query_message = Some (chat, m),
                              query_data = Some (js ''category_fruits'')\<rparr>,
               Message \<lparr>chat_id = chat, msg_text = Some (js ''Apples'')\<rparr>,
               Message \<lparr>chat_id = chat, msg_text = Some (js ''6'')\<rparr>] w)
           = (addItemStates w)(chat := None)"
proof -
  define m1 :: message where "m1 = \<lparr>chat_id = chat, msg_text = Some (js ''/add'')\<rparr>"
  define cq where "cq = \<lparr>query_id = q, query_message = Some (chat, m),
                         query_data = Some (js ''category_fruits'')\<rparr>"
  define m3 :: message where "m3 = \<lparr>chat_id = chat, msg_text = Some (js ''Apples'')\<rparr>"
  define m4 :: message where "m4 = \<lparr>chat_id = chat, msg_text = Some (js ''6'')\<rparr>"
  define w1 where "w1 = snd (process_update (Message m1) w)"
  define w2 where "w2 = snd (process_update (CallbackQuery cq) w1)"
  define w3 where "w3 = snd (process_update (Message m3) w2)"
  define w4 where "w4 = snd (process_update (Message m4) w3)"
  have all: "process_updates [Message m1, CallbackQuery cq, Message m3, Message m4] w = w4"
    by (simp add: w1_def w2_def w3_def w4_def)
  \<comment> \<open>the add command\<close>
  have "w1 = snd (on_add m1 w)"
    unfolding w1_def process_message_world
    by (simp add: m1_def on_message_command text_startsWith_examples command_listeners_examples
        case_prod_beta)
  then have w1: "addItemStates w1
        = (addItemStates w)(chat \<mapsto> \<lparr>state = awaiting_name, category = None, name = None\<rparr>)"
      "json_file w1 = json_file w" "read_only w1 = read_only w" "transport w1 = transport w"
    by (simp_all add: on_add_world m1_def)
  \<comment> \<open>the category button\<close>
  have cq: "query_message cq = Some (chat, m)" "query_data cq = Some (js ''category_fruits'')"
      "startsWith (js ''category_fruits'') (js ''category_'')"
      "\<not> startsWith (js ''category_fruits'') (js ''remove_'')"
      "\<not> startsWith (js ''category_fruits'') (js ''toggle_'')"
      "drop 9 (js ''category_fruits'') = js ''fruits''"
    by (simp_all add: cq_def js_def startsWith_def)
  have "w2 = snd (on_category_query cq w1)"
    unfolding w2_def process_callback_world
    by (simp add: on_action_query_other [OF cq(1,2,4,5)])
  then have w2: "addItemStates w2
        = (addItemStates w)(chat \<mapsto> \<lparr>state = awaiting_name, category = Some (js ''fruits''),
                                        name = None\<rparr>)"
      "json_file w2 = json_file w" "read_only w2 = read_only w" "transport w2 = transport w"
    using on_category_query_fields [OF cq(1,2,3), of w1] w1 by (simp_all add: cq(6))
  \<comment> \<open>the name\<close>
  have s2: "addItemStates w2 (chat_id m3)
        = Some \<lparr>state = awaiting_name, category = Some (js ''fruits''), name = None\<rparr>"
    by (simp add: w2 m3_def)
  have t3: "string_truthy (category \<lparr>state = awaiting_name, category = Some (js ''fruits''), name = None\<rparr>)"
    by (simp add: string_truthy_def js_def)
  have "w3 = snd (on_message m3 w2)"
    unfolding w3_def process_message_world
    by (simp add: m3_def command_listeners_examples case_prod_beta)
  then have w3: "addItemStates w3
        = (addItemStates w)(chat \<mapsto> \<lparr>state = awaiting_quantity, category = Some (js ''fruits''),
                                        name = Some (js ''Apples'')\<rparr>)"
      "json_file w3 = json_file w" "read_only w3 = read_only w" "transport w3 = transport w"
    using on_message_name_world [OF s2 _ t3] w2
    by (simp_all add: m3_def text_startsWith_examples)
  \<comment> \<open>the quantity\<close>
  have s3: "addItemStates w3 (chat_id m4)
        = Some \<lparr>state = awaiting_quantity, category = Some (js ''fruits''),
                name = Some (js ''Apples'')\<rparr>"
    by (simp add: w3 m4_def)
  have h3: "holds w3 xs"
    using w3(2) assms(1) by (rule holds_same_file)
  have "w4 = snd (on_message m4 w3)"
    unfolding w4_def process_message_world
    by (simp add: m4_def command_listeners_examples case_prod_beta)
  also have "on_message m4 w3
     = (Inr (), (saveShoppingList
          (Arr (map item_object
             (xs @ [\<lparr>item_name = js ''Apples'', item_quantity = js ''6'',
                     item_category = js ''fruits'', item_checked = False\<rparr>])))
          w3)
        \<lparr>calls := calls w3 @ [SendMessage (chat_id m4)
                     (Added (Some (js ''fruits'')) (Some (js ''Apples'')) (Some (js ''6''))) NoOptions],
         addItemStates := (addItemStates w3)(chat_id m4 := None)\<rparr>)"
    using assms(3)
    by (intro on_message_quantity [OF s3 _ _ h3])
       (simp_all add: m4_def text_startsWith_examples w3)
  finally have w4: "w4 = (saveShoppingList
          (Arr (map item_object
             (xs @ [\<lparr>item_name = js ''Apples'', item_quantity = js ''6'',
                     item_category = js ''fruits'', item_checked = False\<rparr>])))
          w3)
        \<lparr>calls := calls w3 @ [SendMessage (chat_id m4)
                     (Added (Some (js ''fruits'')) (Some (js ''Apples'')) (Some (js ''6''))) NoOptions],
         addItemStates := (addItemStates w3)(chat_id m4 := None)\<rparr>"
    by simp
  have "\<not> read_only w3" using w3(3) assms(2) by simp
  from holds_saveShoppingList [OF this]
  have "holds w4 (xs @ [\<lparr>item_name = js ''Apples'', item_quantity = js ''6'',
                     item_category = js ''fruits'', item_checked = False\<rparr>])"
    by (rule holds_same_file [rotated]) (simp add: w4)
  moreover have "addItemStates w4 = (addItemStates w)(chat := None)"
    by (simp add: w4 w3 m4_def)
  ultimately show ?thesis
    using all by (simp add: m1_def cq_def m3_def m4_def)
qed

theorem add_flow_appends_item_witness:
  "addItemStates stocked_world 7 = None
   \<and> holds stocked_world [milk, apples]
   \<and> \<not> read_only stocked_world
   \<and> (\<forall>n. transport stocked_world n = None)
   \<and> holds
       (process_updates
          [Message \<lparr>chat_id = 7, msg_text = Some (js ''/add'')\<rparr>,
           CallbackQuery \<lparr>query_id = js ''4211'', query_message = Some (7, 3),
                          query_data = Some (js ''category_fruits'')\<rparr>,
           Message \<lparr>chat_id = 7, msg_text = Some (js ''Apples'')\<rparr>,
           Message \<lparr>chat_id = 7, msg_text = Some (js ''6'')\<rparr>] stocked_world)
       [milk, apples, apples]
   \<and> addItemStates
       (process_updates
          [Message \<lparr>chat_id = 7, msg_text = Some (js ''/add'')\<rparr>,
           CallbackQuery \<lparr>query_id = js ''4211'', query_message = Some (7, 3),
                          query_data = Some (js ''category_fruits'')\<rparr>,
           Message \<lparr>chat_id = 7, msg_text = Some (js ''Apples'')\<rparr>,
           Message \<lparr>chat_id = 7, msg_text = Some (js ''6'')\<rparr>] stocked_world) 7 = None"
  using add_flow_appends_item [OF stocked_world_holds, of 7 "js ''4211''" 3] stocked_world_holds
  by (simp add: apples_def)

lemma loadShoppingList_frame [simp]:
  "addItemStates (snd (loadShoppingList w)) = addItemStates w"
  "json_file (snd (loadShoppingList w)) = json_file w"
  "read_only (snd (loadShoppingList w)) = read_only w"
  by (simp_all add: loadShoppingList_def split: option.splits parsed.splits)

lemma safeSendMessage_frame [simp]:
  "addItemStates (snd (safeSendMessage chatId message opts w)) = addItemStates w"
  "json_file (snd (safeSendMessage chatId message opts w)) = json_file w"
  "read_only (snd (safeSendMessage chatId message opts w)) = read_only w"
  by (simp_all add: safeSendMessage_def bot_call_def Let_def split: option.splits)

lemma discard_frame [simp]:
  "snd (discard m w) = snd (m w)"
  by (simp add: discard_def and_then_def split: prod.splits sum.splits)

lemma text_command_frames [simp]:
  "addItemStates (snd (on_start msg w)) = addItemStates w"
  "json_file (snd (on_start msg w)) = json_file w"
  "read_only (snd (on_start msg w)) = read_only w"
  "addItemStates (snd (on_help msg w)) = addItemStates w"
  "json_file (snd (on_help msg w)) = json_file w"
  "read_only (snd (on_help msg w)) = read_only w"
  "addItemStates (snd (on_categories msg w)) = addItemStates w"
  "json_file (snd (on_categories msg w)) = json_file w"
  "read_only (snd (on_categories msg w)) = read_only w"
  by (simp_all add: on_start_def on_help_def on_categories_def)

lemma on_add_frame [simp]:
  "json_file (snd (on_add msg w)) = json_file w"
  "read_only (snd (on_add msg w)) = read_only w"
  by (simp_all add: on_add_world)

lemma on_clear_frame [simp]:
  "addItemStates (snd (on_clear msg w)) = addItemStates w"
  "read_only (snd (on_clear msg w)) = read_only w"
  "read_only w \<Longrightarrow> json_file (snd (on_clear msg w)) = json_file w"
  by (simp_all add: on_clear_def saveShoppingList_read_only)

lemma on_clear_holds: "\<not> read_only w \<Longrightarrow> holds (snd (on_clear msg w)) []"
  using holds_saveShoppingList [of w "[]"]
  by (simp add: on_clear_def holds_def)

lemma on_list_frame [simp]:
  "addItemStates (snd (on_list msg w)) = addItemStates w"
  "json_file (snd (on_list msg w)) = json_file w"
  "read_only (snd (on_list msg w)) = read_only w"
proof -
  obtain r w1 where l: "loadShoppingList w = (r, w1)" by (cases "loadShoppingList w")
  then have f: "addItemStates w1 = addItemStates w" "json_file w1 = json_file w"
      "read_only w1 = read_only w"
    using loadShoppingList_frame [of w] by simp_all
  show "addItemStates (snd (on_list msg w)) = addItemStates w"
    using l f
    by (auto simp: on_list_def and_then_def lift_def bot_call_def
        split: sum.splits prod.splits option.splits)
  show "json_file (snd (on_list msg w)) = json_file w"
    using l f
    by (auto simp: on_list_def and_then_def lift_def bot_call_def
        split: sum.splits prod.splits option.splits)
  show "read_only (snd (on_list msg w)) = read_only w"
    using l f
    by (auto simp: on_list_def and_then_def lift_def bot_call_def
        split: sum.splits prod.splits option.splits)
qed

lemma on_remove_frame [simp]:
  "addItemStates (snd (on_remove msg w)) = addItemStates w"
  "json_file (snd (on_remove msg w)) = json_file w"
  "read_only (snd (on_remove msg w)) = read_only w"
proof -
  obtain r w1 where l: "loadShoppingList w = (r, w1)" by (cases "loadShoppingList w")
  then have f: "addItemStates w1 = addItemStates w" "json_file w1 = json_file w"
      "read_only w1 = read_only w"
    using loadShoppingList_frame [of w] by simp_all
  show "addItemStates (snd (on_remove msg w)) = addItemStates w"
    using l f
    by (auto simp: on_remove_def and_then_def lift_def call_def bot_call_def
        split: sum.splits prod.splits option.splits)
  show "json_file (snd (on_remove msg w)) = json_file w"
    using l f
    by (auto simp: on_remove_def and_then_def lift_def call_def bot_call_def
        split: sum.splits prod.splits option.splits)
  show "read_only (snd (on_remove msg w)) = read_only w"
    using l f
    by (auto simp: on_remove_def and_then_def lift_def call_def bot_call_def
        split: sum.splits prod.splits option.splits)
qed

lemma run_listeners_frame:
  assumes "\<And>l w. l \<in> set ls \<Longrightarrow> f (snd (l w)) = f w"
  shows "f (snd (run_listeners ls w)) = f w"
  using assms
proof (induction ls arbitrary: w)
  case Nil
  show ?case by simp
next
  case (Cons l ls)
  have "f (snd (run_listeners ls (snd (l w)))) = f (snd (l w))"
    by (rule Cons.IH) (simp add: Cons.prems)
  then show ?case
    by (simp add: case_prod_beta Cons.prems)
qed

lemma run_listeners_append:
  "snd (run_listeners (ls @ ms) w) = snd (run_listeners ms (snd (run_listeners ls w)))"
  by (induction ls arbitrary: w) (simp_all add: case_prod_beta)

text \<open>
  The \<^verbatim>\<open>onText\<close> callbacks that a text reaches: those whose command occurs in it, in the
  order of registration.
\<close>

lemma command_listeners_text:
  assumes "msg_text msg = Some t"
  shows "command_listeners msg =
           (if includes_str t (js ''/start'') then [on_start msg] else []) @
           (if includes_str t (js ''/help'') then [on_help msg] else []) @
           (if includes_str t (js ''/categories'') then [on_categories msg] else []) @
           (if includes_str t (js ''/list'') then [on_list msg] else []) @
           (if includes_str t (js ''/add'') then [on_add msg] else []) @
           (if includes_str t (js ''/remove'') then [on_remove msg] else []) @
           (if includes_str t (js ''/clear'') then [on_clear msg] else [])"
  using assms by (simp add: command_listeners_def textRegexpCallbacks_def)

lemma commands_states:
  assumes "msg_text msg = Some t"
  shows "addItemStates (snd (run_listeners (command_listeners msg) w))
           = (if includes_str t (js ''/add'')
              then (addItemStates w)
                     (chat_id msg \<mapsto> \<lparr>state = awaiting_name, category = None, name = None\<rparr>)
              else addItemStates w)"
proof -
  define before where "before =
           (if includes_str t (js ''/start'') then [on_start msg] else []) @
           (if includes_str t (js ''/help'') then [on_help msg] else []) @
           (if includes_str t (js ''/categories'') then [on_categories msg] else []) @
           (if includes_str t (js ''/list'') then [on_list msg] else [])"
  define after where "after =
           (if includes_str t (js ''/remove'') then [on_remove msg] else []) @
           (if includes_str t (js ''/clear'') then [on_clear msg] else [])"
  have c: "command_listeners msg
      = before @ (if includes_str t (js ''/add'') then [on_add msg] else []) @ after"
    by (simp add: command_listeners_text [OF assms] before_def after_def)
  have b: "addItemStates (snd (run_listeners before v)) = addItemStates v" for v
    by (rule run_listeners_frame) (auto simp: before_def split: if_splits)
  have a: "addItemStates (snd (run_listeners after v)) = addItemStates v" for v
    by (rule run_listeners_frame) (auto simp: after_def split: if_splits)
  show ?thesis
    by (simp add: c run_listeners_append a b on_add_world case_prod_beta)
qed

lemma commands_keep_file:
  assumes "msg_text msg = Some t" and "\<not> includes_str t (js ''/clear'') \<or> read_only w"
  shows "json_file (snd (run_listeners (command_listeners msg) w)) = json_file w"
proof -
  define before where "before =
           (if includes_str t (js ''/start'') then [on_start msg] else []) @
           (if includes_str t (js ''/help'') then [on_help msg] else []) @
           (if includes_str t (js ''/categories'') then [on_categories msg] else []) @
           (if includes_str t (js ''/list'') then [on_list msg] else []) @
           (if includes_str t (js ''/add'') then [on_add msg] else []) @
           (if includes_str t (js ''/remove'') then [on_remove msg] else [])"
  have c: "command_listeners msg
      = before @ (if includes_str t (js ''/clear'') then [on_clear msg] else [])"
    by (simp add: command_listeners_text [OF assms(1)] before_def)
  have f: "json_file (snd (run_listeners before v)) = json_file v" for v
    by (rule run_listeners_frame) (auto simp: before_def split: if_splits)
  have r: "read_only (snd (run_listeners before v)) = read_only v" for v
    by (rule run_listeners_frame) (auto simp: before_def split: if_splits)
  show ?thesis
    using assms(2) by (auto simp: c run_listeners_append f r case_prod_beta)
qed

lemma commands_clear_file:
  assumes "msg_text msg = Some t" and "includes_str t (js ''/clear'')" and "\<not> read_only w"
  shows "holds (snd (run_listeners (command_listeners msg) w)) []"
proof -
  define before where "before =
           (if includes_str t (js ''/start'') then [on_start msg] else []) @
           (if includes_str t (js ''/help'') then [on_help msg] else []) @
           (if includes_str t (js ''/categories'') then [on_categories msg] else []) @
           (if includes_str t (js ''/list'') then [on_list msg] else []) @
           (if includes_str t (js ''/add'') then [on_add msg] else []) @
           (if includes_str t (js ''/remove'') then [on_remove msg] else [])"
  have c: "command_listeners msg = before @ [on_clear msg]"
    by (simp add: command_listeners_text [OF assms(1)] before_def assms(2))
  have r: "read_only (snd (run_listeners before v)) = read_only v" for v
    by (rule run_listeners_frame) (auto simp: before_def split: if_splits)
  have "holds (snd (on_clear msg (snd (run_listeners before w)))) []"
    by (rule on_clear_holds) (simp add: r assms(3))
  then show ?thesis
    by (simp add: c run_listeners_append case_prod_beta)
qed

lemma process_command:
  assumes "msg_text msg = Some t" and "startsWith t (js ''/'')"
  shows "on_message msg w = (Inr (), w)"
    and "process_update (Message msg) w
           = (Inr () # fst (run_listeners (command_listeners msg) w),
              snd (run_listeners (command_listeners msg) w))"
proof -
  from assms have c: "text_startsWith (msg_text msg) (js ''/'')"
    by (simp add: text_startsWith_def)
  show "on_message msg w = (Inr (), w)"
    by (rule on_message_command [OF c])
  then show "process_update (Message msg) w
           = (Inr () # fst (run_listeners (command_listeners msg) w),
              snd (run_listeners (command_listeners msg) w))"
    by (simp add: case_prod_beta)
qed

lemma awaiting_world_fields:
  "addItemStates awaiting_world 7
     = Some \<lparr>state = awaiting_quantity, category = Some (js ''fruits''), name = Some (js ''Apples'')\<rparr>"
  "holds awaiting_world [milk, apples]"
  "\<not> read_only awaiting_world"
proof -
  show "addItemStates awaiting_world 7
     = Some \<lparr>state = awaiting_quantity, category = Some (js ''fruits''), name = Some (js ''Apples'')\<rparr>"
    by (simp add: awaiting_world_def)
  show "holds awaiting_world [milk, apples]"
    by (rule holds_same_file [OF _ stocked_world_holds]) (simp add: awaiting_world_def)
  show "\<not> read_only awaiting_world"
    by (simp add: awaiting_world_def)
qed

lemma command_text_examples:
  "startsWith (js ''/list'') (js ''/'')"
  "startsWith (js ''/add'') (js ''/'')"
  "startsWith (js ''/clear'') (js ''/'')"
  by (simp_all add: js_def startsWith_def)

lemma command_pattern_examples:
  "\<not> includes_str (js ''/list'') (js ''/start'')"
  "\<not> includes_str (js ''/list'') (js ''/help'')"
  "\<not> includes_str (js ''/list'') (js ''/categories'')"
  "includes_str (js ''/list'') (js ''/list'')"
  "\<not> includes_str (js ''/list'') (js ''/add'')"
  "\<not> includes_str (js ''/list'') (js ''/remove'')"
  "\<not> includes_str (js ''/list'') (js ''/clear'')"
  "\<not> includes_str (js ''/add'') (js ''/start'')"
  "\<not> includes_str (js ''/add'') (js ''/help'')"
  "\<not> includes_str (js ''/add'') (js ''/categories'')"
  "\<not> includes_str (js ''/add'') (js ''/list'')"
  "includes_str (js ''/add'') (js ''/add'')"
  "\<not> includes_str (js ''/add'') (js ''/remove'')"
  "\<not> includes_str (js ''/add'') (js ''/clear'')"
  "\<not> includes_str (js ''/clear'') (js ''/start'')"
  "\<not> includes_str (js ''/clear'') (js ''/help'')"
  "\<not> includes_str (js ''/clear'') (js ''/categories'')"
  "\<not> includes_str (js ''/clear'') (js ''/list'')"
  "\<not> includes_str (js ''/clear'') (js ''/add'')"
  "\<not> includes_str (js ''/clear'') (js ''/remove'')"
  "includes_str (js ''/clear'') (js ''/clear'')"
  by (simp_all add: js_def startsWith_def)

lemma holds_unique: "holds w xs \<Longrightarrow> holds w ys \<Longrightarrow> xs = ys"
  by (auto simp: holds_def split: option.splits)

text \<open>
  C6. A message whose text begins with \<^verbatim>\<open>/\<close>, in whatever conversation state (so also
  while a quantity is awaited): the \<^verbatim>\<open>message\<close> listener returns at once and leaves the
  conversation states, the file and everything else as they are, so the text is not
  taken as a name or a quantity and the pending Item is not added. The update is handled
  by the command callbacks whose command occurs in the text, each run in the order of
  registration, and by nothing else. What becomes of the conversation states and of the
  stored list is what these callbacks do. The states are as before, unless the text
  holds \<^verbatim>\<open>/add\<close>: then the entry of the chat is replaced by a fresh one that awaits a name
  and has no category. The stored list is as before, unless the text holds \<^verbatim>\<open>/clear\<close> and
  the file takes the write: then it is empty. In no case is an Item appended.
\<close>

theorem command_prefix_not_consumed:
  assumes "msg_text msg = Some t" and "startsWith t (js ''/'')"
  shows "on_message msg w = (Inr (), w)
       \<and> process_update (Message msg) w
           = (case run_listeners
                     ((if includes_str t (js ''/start'') then [on_start msg] else []) @
                      (if includes_str t (js ''/help'') then [on_help msg] else []) @
                      (if includes_str t (js ''/categories'') then [on_categories msg] else []) @
                      (if includes_str t (js ''/list'') then [on_list msg] else []) @
                      (if includes_str t (js ''/add'') then [on_add msg] else []) @
                      (if includes_str t (js ''/remove'') then [on_remove msg] else []) @
                      (if includes_str t (js ''/clear'') then [on_clear msg] else [])) w
              of (rs, w') \<Rightarrow> (Inr () # rs, w'))
       \<and> addItemStates (snd (process_update (Message msg) w))
           = (if includes_str t (js ''/add'')
              then (addItemStates w)
                     (chat_id msg \<mapsto> \<lparr>state = awaiting_name, category = None, name = None\<rparr>)
              else addItemStates w)
       \<and> (\<not> includes_str t (js ''/clear'') \<longrightarrow>
            json_file (snd (process_update (Message msg) w)) = json_file w)
       \<and> (holds w xs \<longrightarrow>
            holds (snd (process_update (Message msg) w))
              (if includes_str t (js ''/clear'') \<and> \<not> read_only w then [] else xs))"
proof -
  note p = process_command [OF assms, of w]
  have 1: "process_update (Message msg) w
           = (case run_listeners
                     ((if includes_str t (js ''/start'') then [on_start msg] else []) @
                      (if includes_str t (js ''/help'') then [on_help msg] else []) @
                      (if includes_str t (js ''/categories'') then [on_categories msg] else []) @
                      (if includes_str t (js ''/list'') then [on_list msg] else []) @
                      (if includes_str t (js ''/add'') then [on_add msg] else []) @
                      (if includes_str t (js ''/remove'') then [on_remove msg] else []) @
                      (if includes_str t (js ''/clear'') then [on_clear msg] else [])) w
              of (rs, w') \<Rightarrow> (Inr () # rs, w'))"
    unfolding p(2) command_listeners_text [OF assms(1)] by (simp add: case_prod_beta)
  have s: "snd (process_update (Message msg) w) = snd (run_listeners (command_listeners msg) w)"
    unfolding p(2) by simp
  have 2: "addItemStates (snd (process_update (Message msg) w))
           = (if includes_str t (js ''/add'')
              then (addItemStates w)
                     (chat_id msg \<mapsto> \<lparr>state = awaiting_name, category = None, name = None\<rparr>)
              else addItemStates w)"
    unfolding s by (rule commands_states [OF assms(1)])
  have 3: "json_file (snd (process_update (Message msg) w)) = json_file w"
    if "\<not> includes_str t (js ''/clear'')"
    unfolding s using that by (intro commands_keep_file [OF assms(1)]) simp
  have 4: "holds (snd (process_update (Message msg) w))
              (if includes_str t (js ''/clear'') \<and> \<not> read_only w then [] else xs)"
    if h: "holds w xs"
  proof (cases "includes_str t (js ''/clear'') \<and> \<not> read_only w")
    case True
    then have "includes_str t (js ''/clear'')" and "\<not> read_only w"
      by simp_all
    then have "holds (snd (run_listeners (command_listeners msg) w)) []"
      by (rule commands_clear_file [OF assms(1)])
    then show ?thesis
      unfolding s if_P [OF True] .
  next
    case False
    then have "json_file (snd (run_listeners (command_listeners msg) w)) = json_file w"
      by (intro commands_keep_file [OF assms(1)]) simp
    then have "holds (snd (run_listeners (command_listeners msg) w)) xs"
      using h by (rule holds_same_file)
    then show ?thesis
      unfolding s if_not_P [OF False] .
  qed
  from p(1) 1 2 3 4 show ?thesis
    by blast
qed

theorem command_prefix_not_consumed_witness:
  "startsWith (js ''/list'') (js ''/'')
   \<and> startsWith (js ''/add'') (js ''/'')
   \<and> startsWith (js ''/clear'') (js ''/'')
   \<and> addItemStates awaiting_world 7
       = Some \<lparr>state = awaiting_quantity, category = Some (js ''fruits''),
               name = Some (js ''Apples'')\<rparr>
   \<and> holds awaiting_world [milk, apples]
   \<and> \<not> read_only awaiting_world
   \<and> on_message \<lparr>chat_id = 7, msg_text = Some (js ''/list'')\<rparr> awaiting_world
       = (Inr (), awaiting_world)
   \<and> process_update (Message \<lparr>chat_id = 7, msg_text = Some (js ''/list'')\<rparr>) awaiting_world
       = (case run_listeners [on_list \<lparr>chat_id = 7, msg_text = Some (js ''/list'')\<rparr>] awaiting_world
          of (rs, w') \<Rightarrow> (Inr () # rs, w'))
   \<and> addItemStates (snd (process_update (Message \<lparr>chat_id = 7, msg_text = Some (js ''/list'')\<rparr>)
                            awaiting_world)) 7
       = Some \<lparr>state = awaiting_quantity, category = Some (js ''fruits''),
               name = Some (js ''Apples'')\<rparr>
   \<and> holds (snd (process_update (Message \<lparr>chat_id = 7, msg_text = Some (js ''/list'')\<rparr>)
                            awaiting_world)) [milk, apples]
   \<and> process_update (Message \<lparr>chat_id = 7, msg_text = Some (js ''/add'')\<rparr>) awaiting_world
       = (case run_listeners [on_add \<lparr>chat_id = 7, msg_text = Some (js ''/add'')\<rparr>] awaiting_world
          of (rs, w') \<Rightarrow> (Inr () # rs, w'))
   \<and> addItemStates (snd (process_update (Message \<lparr>chat_id = 7, msg_text = Some (js ''/add'')\<rparr>)
                            awaiting_world)) 7
       = Some \<lparr>state = awaiting_name, category = None, name = None\<rparr>
   \<and> holds (snd (process_update (Message \<lparr>chat_id = 7, msg_text = Some (js ''/add'')\<rparr>)
                            awaiting_world)) [milk, apples]
   \<and> process_update (Message \<lparr>chat_id = 7, msg_text = Some (js ''/clear'')\<rparr>) awaiting_world
       = (case run_listeners [on_clear \<lparr>chat_id = 7, msg_text = Some (js ''/clear'')\<rparr>] awaiting_world
          of (rs, w') \<Rightarrow> (Inr () # rs, w'))
   \<and> addItemStates (snd (process_update (Message \<lparr>chat_id = 7, msg_text = Some (js ''/clear'')\<rparr>)
                            awaiting_world)) 7
       = Some \<lparr>state = awaiting_quantity, category = Some (js ''fruits''),
               name = Some (js ''Apples'')\<rparr>
   \<and> holds (snd (process_update (Message \<lparr>chat_id = 7, msg_text = Some (js ''/clear'')\<rparr>)
                            awaiting_world)) []"
proof -
  let ?l = "\<lparr>chat_id = 7, msg_text = Some (js ''/list'')\<rparr>"
  let ?a = "\<lparr>chat_id = 7, msg_text = Some (js ''/add'')\<rparr>"
  let ?c = "\<lparr>chat_id = 7, msg_text = Some (js ''/clear'')\<rparr>"
  have t: "msg_text ?l = Some (js ''/list'')" "msg_text ?a = Some (js ''/add'')"
      "msg_text ?c = Some (js ''/clear'')"
    by simp_all
  note l = command_prefix_not_consumed
             [OF t(1) command_text_examples(1), of awaiting_world "[milk, apples]"]
  note a = command_prefix_not_consumed
             [OF t(2) command_text_examples(2), of awaiting_world "[milk, apples]"]
  note c = command_prefix_not_consumed
             [OF t(3) command_text_examples(3), of awaiting_world "[milk, apples]"]
  have l1: "on_message ?l awaiting_world = (Inr (), awaiting_world)"
    by (rule l [THEN conjunct1])
  have l2: "process_update (Message ?l) awaiting_world
       = (case run_listeners [on_list ?l] awaiting_world of (rs, w') \<Rightarrow> (Inr () # rs, w'))"
    using l [THEN conjunct2, THEN conjunct1]
    by (simp only: command_pattern_examples if_True if_False append_Nil append_Nil2)
  have a2: "process_update (Message ?a) awaiting_world
       = (case run_listeners [on_add ?a] awaiting_world of (rs, w') \<Rightarrow> (Inr () # rs, w'))"
    using a [THEN conjunct2, THEN conjunct1]
    by (simp only: command_pattern_examples if_True if_False append_Nil append_Nil2)
  have c2: "process_update (Message ?c) awaiting_world
       = (case run_listeners [on_clear ?c] awaiting_world of (rs, w') \<Rightarrow> (Inr () # rs, w'))"
    using c [THEN conjunct2, THEN conjunct1]
    by (simp only: command_pattern_examples if_True if_False append_Nil append_Nil2)
  have l3: "addItemStates (snd (process_update (Message ?l) awaiting_world)) 7
       = Some \<lparr>state = awaiting_quantity, category = Some (js ''fruits''),
               name = Some (js ''Apples'')\<rparr>"
    using l [THEN conjunct2, THEN conjunct2, THEN conjunct1] awaiting_world_fields(1)
    by (simp add: command_pattern_examples del: process_update.simps)
  have a3: "addItemStates (snd (process_update (Message ?a) awaiting_world)) 7
       = Some \<lparr>state = awaiting_name, category = None, name = None\<rparr>"
    using a [THEN conjunct2, THEN conjunct2, THEN conjunct1]
    by (simp add: command_pattern_examples del: process_update.simps)
  have c3: "addItemStates (snd (process_update (Message ?c) awaiting_world)) 7
       = Some \<lparr>state = awaiting_quantity, category = Some (js ''fruits''),
               name = Some (js ''Apples'')\<rparr>"
    using c [THEN conjunct2, THEN conjunct2, THEN conjunct1] awaiting_world_fields(1)
    by (simp add: command_pattern_examples del: process_update.simps)
  have l5: "holds (snd (process_update (Message ?l) awaiting_world)) [milk, apples]"
    using l [THEN conjunct2, THEN conjunct2, THEN conjunct2, THEN conjunct2]
      awaiting_world_fields(2,3)
    by (simp add: command_pattern_examples del: process_update.simps)
  have a5: "holds (snd (process_update (Message ?a) awaiting_world)) [milk, apples]"
    using a [THEN conjunct2, THEN conjunct2, THEN conjunct2, THEN conjunct2]
      awaiting_world_fields(2,3)
    by (simp add: command_pattern_examples del: process_update.simps)
  have c5: "holds (snd (process_update (Message ?c) awaiting_world)) []"
    using c [THEN conjunct2, THEN conjunct2, THEN conjunct2, THEN conjunct2]
      awaiting_world_fields(2,3)
    by (simp add: command_pattern_examples del: process_update.simps)
  show ?thesis
    by (intro conjI;
        fact command_text_examples awaiting_world_fields l1 l2 l3 l5 a2 a3 a5 c2 c3 c5)
qed

text \<open>
  As the specification words it, the entry of the chat would stay unmodified and the
  stored list unchanged after every text that begins with \<^verbatim>\<open>/\<close>. In a chat that awaits
  the quantity of its apples, the text \<^verbatim>\<open>/add\<close> replaces the entry, and the text \<^verbatim>\<open>/clear\<close>
  empties the stored list.
\<close>

theorem command_prefix_changes_state_or_list:
  "startsWith (js ''/add'') (js ''/'')
   \<and> addItemStates awaiting_world 7
       = Some \<lparr>state = awaiting_quantity, category = Some (js ''fruits''),
               name = Some (js ''Apples'')\<rparr>
   \<and> addItemStates (snd (process_update (Message \<lparr>chat_id = 7, msg_text = Some (js ''/add'')\<rparr>)
                            awaiting_world)) 7
       = Some \<lparr>state = awaiting_name, category = None, name = None\<rparr>
   \<and> addItemStates (snd (process_update (Message \<lparr>chat_id = 7, msg_text = Some (js ''/add'')\<rparr>)
                            awaiting_world)) 7
       \<noteq> addItemStates awaiting_world 7
   \<and> startsWith (js ''/clear'') (js ''/'')
   \<and> holds awaiting_world [milk, apples]
   \<and> holds (snd (process_update (Message \<lparr>chat_id = 7, msg_text = Some (js ''/clear'')\<rparr>)
                            awaiting_world)) []
   \<and> json_file (snd (process_update (Message \<lparr>chat_id = 7, msg_text = Some (js ''/clear'')\<rparr>)
                            awaiting_world))
       \<noteq> json_file awaiting_world"
proof -
  let ?a = "\<lparr>chat_id = 7, msg_text = Some (js ''/add'')\<rparr>"
  let ?c = "\<lparr>chat_id = 7, msg_text = Some (js ''/clear'')\<rparr>"
  have t: "msg_text ?a = Some (js ''/add'')" "msg_text ?c = Some (js ''/clear'')"
    by simp_all
  have pa: "snd (process_update (Message ?a) awaiting_world)
      = snd (run_listeners (command_listeners ?a) awaiting_world)"
    unfolding process_command(2) [OF t(1) command_text_examples(2)] by simp
  have pc: "snd (process_update (Message ?c) awaiting_world)
      = snd (run_listeners (command_listeners ?c) awaiting_world)"
    unfolding process_command(2) [OF t(2) command_text_examples(3)] by simp
  have 1: "addItemStates (snd (process_update (Message ?a) awaiting_world)) 7
       = Some \<lparr>state = awaiting_name, category = None, name = None\<rparr>"
    unfolding pa commands_states [OF t(1)] by (simp add: command_pattern_examples)
  have 2: "holds (snd (process_update (Message ?c) awaiting_world)) []"
    unfolding pc
    by (rule commands_clear_file [OF t(2)])
       (simp_all add: command_pattern_examples awaiting_world_fields)
  have 3: "json_file (snd (process_update (Message ?c) awaiting_world)) \<noteq> json_file awaiting_world"
  proof
    assume "json_file (snd (process_update (Message ?c) awaiting_world)) = json_file awaiting_world"
    from holds_same_file [OF this awaiting_world_fields(2)] 2 have "[milk, apples] = []"
      by (rule holds_unique)
    then show False by simp
  qed
  from 1 2 3 awaiting_world_fields command_text_examples show ?thesis
    by (simp del: process_update.simps)
qed

text \<open>
  C7. The add command leaves the chat in \<open>awaiting_name\<close> with no category and no
  name. A message of that chat that is no command is then ignored by the \<^verbatim>\<open>message\<close>
  listener: nothing changes. The same holds in every state that awaits a name and has no
  category.
\<close>

theorem add_command_awaits_category:
  "addItemStates (snd (on_add start w)) (chat_id start)
     = Some \<lparr>state = awaiting_name, category = None, name = None\<rparr>
   \<and> (chat_id msg = chat_id start \<and> \<not> text_startsWith (msg_text msg) (js ''/'') \<longrightarrow>
        on_message msg (snd (on_add start w)) = (Inr (), snd (on_add start w)))
   \<and> (addItemStates w' (chat_id msg) = Some st \<and> state st = awaiting_name \<and> category st = None \<longrightarrow>
        on_message msg w' = (Inr (), w'))"
proof (intro conjI impI)
  show 1: "addItemStates (snd (on_add start w)) (chat_id start)
     = Some \<lparr>state = awaiting_name, category = None, name = None\<rparr>"
    by (simp add: on_add_world)
  {
    assume "chat_id msg = chat_id start \<and> \<not> text_startsWith (msg_text msg) (js ''/'')"
    then have "addItemStates (snd (on_add start w)) (chat_id msg)
        = Some \<lparr>state = awaiting_name, category = None, name = None\<rparr>"
      using 1 by simp
    then show "on_message msg (snd (on_add start w)) = (Inr (), snd (on_add start w))"
      by (rule on_message_no_category) (simp_all add: string_truthy_def)
  }
  {
    assume "addItemStates w' (chat_id msg) = Some st \<and> state st = awaiting_name \<and> category st = None"
    then show "on_message msg w' = (Inr (), w')"
      by (intro on_message_no_category [of w' msg st]) (simp_all add: string_truthy_def)
  }
qed

theorem add_command_awaits_category_witness:
  "addItemStates
     (snd (on_add \<lparr>chat_id = 7, msg_text = Some (js ''/add'')\<rparr> stocked_world)) 7
     = Some \<lparr>state = awaiting_name, category = None, name = None\<rparr>
   \<and> \<not> text_startsWith (Some (js ''Apples'')) (js ''/'')
   \<and> on_message \<lparr>chat_id = 7, msg_text = Some (js ''Apples'')\<rparr>
        (snd (on_add \<lparr>chat_id = 7, msg_text = Some (js ''/add'')\<rparr> stocked_world))
       = (Inr (), snd (on_add \<lparr>chat_id = 7, msg_text = Some (js ''/add'')\<rparr> stocked_world))"
  using add_command_awaits_category
          [of "\<lparr>chat_id = 7, msg_text = Some (js ''/add'')\<rparr>" stocked_world
              "\<lparr>chat_id = 7, msg_text = Some (js ''Apples'')\<rparr>"]
  by (simp add: text_startsWith_examples)

section \<open>Sending messages\<close>

lemma is_parse_error_examples:
  "is_parse_error parse_error" "\<not> is_parse_error flood_error"
  by (simp_all add: is_parse_error_def parse_error_def flood_error_def js_def startsWith_def)

lemma strip_markdown_example: "strip_markdown (js ''*Welcome*'') = js ''Welcome''"
  by (simp add: strip_markdown_def js_def)

text \<open>
  C9. The specification says that a final failure of \<^verbatim>\<open>safeSendMessage\<close> is only logged and
  never reaches the caller. When the first send is rejected with a parse error, the send
  of the stripped text is rejected as well, and the last send (the apology) is rejected
  too, the function throws the last error: that send stands in the \<^verbatim>\<open>catch\<close> block of
  the retry, outside every \<^verbatim>\<open>try\<close>. The errors logged are those of the first two sends
  only. (After an error of another kind the apology is sent inside a \<^verbatim>\<open>try\<close>, and its
  failure is logged: \<open>safeSendMessage_other_error_caught\<close>.)
\<close>

theorem safeSendMessage_last_resort_throws:
  assumes "transport w (length (calls w)) = Some e1" and "is_parse_error e1"
    and "transport w (Suc (length (calls w))) = Some e2"
    and "transport w (Suc (Suc (length (calls w)))) = Some e3"
  shows "safeSendMessage chatId message opts w
     = (Inl (Rejected e3),
        w\<lparr>log := log w @ [SendError e1, StrippedSendError e2],
          calls := calls w @
            [SendMessage chatId (Text message) opts,
             SendMessage chatId (Text (strip_markdown message)) NoOptions,
             SendMessage chatId (Text (js ''Sorry, there was an error displaying this message.''))
               NoOptions]\<rparr>)"
  using assms
  by (simp add: safeSendMessage_def bot_call_def logger_error_def)

theorem safeSendMessage_last_resort_throws_witness:
  "transport rejecting_world (length (calls rejecting_world)) = Some parse_error
   \<and> is_parse_error parse_error
   \<and> transport rejecting_world (Suc (length (calls rejecting_world))) = Some flood_error
   \<and> transport rejecting_world (Suc (Suc (length (calls rejecting_world)))) = Some flood_error
   \<and> safeSendMessage 7 (js ''*Welcome*'') Markdown rejecting_world
     = (Inl (Rejected flood_error),
        rejecting_world
          \<lparr>log := [SendError parse_error, StrippedSendError flood_error],
           calls := [SendMessage 7 (Text (js ''*Welcome*'')) Markdown,
                     SendMessage 7 (Text (js ''Welcome'')) NoOptions,
                     SendMessage 7 (Text (js ''Sorry, there was an error displaying this message.''))
                       NoOptions]\<rparr>)"
proof -
  have t: "transport rejecting_world (length (calls rejecting_world)) = Some parse_error"
      "transport rejecting_world (Suc (length (calls rejecting_world))) = Some flood_error"
      "transport rejecting_world (Suc (Suc (length (calls rejecting_world)))) = Some flood_error"
    by (simp_all add: rejecting_world_def fresh_world_def)
  from safeSendMessage_last_resort_throws [OF t(1) is_parse_error_examples(1) t(2) t(3),
      of 7 "js ''*Welcome*''" Markdown] t is_parse_error_examples(1)
  show ?thesis
    by (simp add: strip_markdown_example rejecting_world_def fresh_world_def)
qed

lemma safeSendMessage_other_error_caught:
  assumes "transport w (length (calls w)) = Some e" and "\<not> is_parse_error e"
  shows "\<exists>b. fst (safeSendMessage chatId message opts w) = Inr b"
  using assms
  by (auto simp: safeSendMessage_def bot_call_def logger_error_def Let_def split: option.splits)

lemma safeSendMessage_accepted:
  assumes "transport w (length (calls w)) = None"
  shows "safeSendMessage chatId message opts w
       = (Inr True, w\<lparr>calls := calls w @ [SendMessage chatId (Text message) opts]\<rparr>)"
  using assms by (simp add: safeSendMessage_def bot_call_def)

lemma safeSendMessage_parse_error_retry:
  assumes "transport w (length (calls w)) = Some e" and "is_parse_error e"
  shows "take (length (calls w) + 2) (calls (snd (safeSendMessage chatId message opts w)))
       = calls w @ [SendMessage chatId (Text message) opts,
                    SendMessage chatId (Text (strip_markdown message)) NoOptions]"
  using assms
  by (simp add: safeSendMessage_def bot_call_def logger_error_def Let_def split: option.splits)

end
